theory Spec2Isabelle
  imports Main "HOL-Library.Word" "HOL-Library.AList"
begin

text \<open>
  The vault engine of \<^verbatim>\<open>@p47h/vault-js\<close>: the facade, its four use cases, the session
  manager and the two ports, as functions on an explicit state, with every exception as
  a value.
\<close>

unbundle bit_operations_syntax

section \<open>Domain errors (domain/errors)\<close>

text \<open>
  Every exception of the vault is a value. The JavaScript class of the exception, its
  \<^verbatim>\<open>code\<close>, its message and its optional \<^verbatim>\<open>cause\<close> are kept, since callers test all of
  them. \<open>NativeErrorC\<close> stands for the exceptions of the platform itself (\<^verbatim>\<open>TypeError\<close>,
  \<^verbatim>\<open>SyntaxError\<close>, the \<^verbatim>\<open>DOMException\<close> of \<^verbatim>\<open>atob\<close>, the \<^verbatim>\<open>Error\<close> of a test double).
\<close>

datatype error_class =
    VaultErrorC | InitializationErrorC | AuthenticationErrorC
  | NotAuthenticatedErrorC | StorageErrorC | CryptoErrorC | NativeErrorC

datatype error =
  Error (err_class: error_class) (err_code: string) (err_message: string)
        (err_cause: "error option")

definition VaultError :: "string \<Rightarrow> string \<Rightarrow> error" where
  "VaultError message code = Error VaultErrorC code message None"

definition InitializationError :: "string \<Rightarrow> error option \<Rightarrow> error" where
  "InitializationError message cause =
     Error InitializationErrorC ''VAULT_INIT_ERROR'' message cause"

definition AuthenticationError :: "string \<Rightarrow> error" where
  "AuthenticationError message = Error AuthenticationErrorC ''AUTH_FAILED'' message None"

definition NotAuthenticatedError :: error where
  "NotAuthenticatedError =
     Error NotAuthenticatedErrorC ''VAULT_LOCKED'' ''Vault is locked. Unlock it first.'' None"

definition StorageError :: "string \<Rightarrow> error option \<Rightarrow> error" where
  "StorageError message cause = Error StorageErrorC ''STORAGE_ERROR'' message cause"

definition CryptoError :: "string \<Rightarrow> error option \<Rightarrow> error" where
  "CryptoError message cause = Error CryptoErrorC ''CRYPTO_ERROR'' message cause"

definition NativeError :: "string \<Rightarrow> error" where
  "NativeError message = Error NativeErrorC [] message None"

text \<open>
  The error kinds of the specification, read off an exception: \<open>AuthenticationFailed\<close> is
  an \<^verbatim>\<open>AuthenticationError\<close>; \<open>CorruptData\<close>, \<open>IntegrityError\<close> and \<open>Disposed\<close> are
  \<^verbatim>\<open>VaultError\<close>s told apart by their code.
\<close>

definition is_AuthenticationFailed :: "error \<Rightarrow> bool" where
  "is_AuthenticationFailed e \<longleftrightarrow> err_class e = AuthenticationErrorC"

definition is_CorruptData :: "error \<Rightarrow> bool" where
  "is_CorruptData e \<longleftrightarrow> err_code e = ''CORRUPT_DATA''"

definition is_IntegrityError :: "error \<Rightarrow> bool" where
  "is_IntegrityError e \<longleftrightarrow> err_code e = ''INTEGRITY_ERROR''"

definition is_Disposed :: "error \<Rightarrow> bool" where
  "is_Disposed e \<longleftrightarrow> err_code e = ''DISPOSED''"

definition is_NotAuthenticated :: "error \<Rightarrow> bool" where
  "is_NotAuthenticated e \<longleftrightarrow> err_class e = NotAuthenticatedErrorC"

definition is_InitializationError :: "error \<Rightarrow> bool" where
  "is_InitializationError e \<longleftrightarrow> err_class e = InitializationErrorC"

definition is_StorageError :: "error \<Rightarrow> bool" where
  "is_StorageError e \<longleftrightarrow> err_code e = ''STORAGE_ERROR''"

definition is_CryptoError :: "error \<Rightarrow> bool" where
  "is_CryptoError e \<longleftrightarrow> err_class e = CryptoErrorC"

section \<open>Domain types (domain/types, application/types)\<close>

type_synonym bytes = "8 word list"

text \<open>\<^verbatim>\<open>EncryptedVaultBlob\<close>: the envelope as persisted; \<^verbatim>\<open>recoveryBlob\<close> is optional.\<close>

record EncryptedVaultBlob =
  blob_version :: nat
  blob_did :: string
  blob_salt :: string
  blob_wrappedData :: string
  blob_recoveryBlob :: "string option"
  blob_updatedAt :: nat

text \<open>
  \<^verbatim>\<open>VaultInternalData\<close>: the plaintext under the envelope. \<^verbatim>\<open>secrets\<close> is a
  \<^verbatim>\<open>Record<string, string>\<close>: a plain object, created by an object literal, by a spread or
  by \<^verbatim>\<open>JSON.parse\<close>, so its prototype is \<^verbatim>\<open>Object.prototype\<close>. The association list holds
  its own properties (all of them writable data properties with string values); \<^verbatim>\<open>delete\<close>
  is \<^const>\<open>AList.delete\<close>, and a spread copies the own properties. Reads and assignments by
  key go through the prototype: see \<open>object_get\<close> and \<open>object_set\<close> below. The order in which
  \<^verbatim>\<open>Object.keys\<close> lists the properties is not modelled.
\<close>

record VaultInternalData =
  vid_did :: string
  vid_wrappedSecret :: string
  vid_salt :: string
  vid_secrets :: "(string \<times> string) list"
  vid_createdAt :: nat

text \<open>
  The property names of \<^verbatim>\<open>Object.prototype\<close>. All are data properties holding a function,
  except \<^verbatim>\<open>__proto__\<close>, an accessor: its getter returns the prototype of the receiver, its
  setter does nothing when the value assigned is not an object or \<^verbatim>\<open>null\<close>.
\<close>

definition Object_prototype_names :: "string list" where
  "Object_prototype_names =
     [''constructor'', ''__defineGetter__'', ''__defineSetter__'', ''hasOwnProperty'',
      ''__lookupGetter__'', ''__lookupSetter__'', ''isPrototypeOf'', ''propertyIsEnumerable'',
      ''toString'', ''valueOf'', ''__proto__'', ''toLocaleString'']"

text \<open>
  What \<^verbatim>\<open>obj[key] ?? null\<close> evaluates to on such an object: the string of an own property,
  else the member of \<^verbatim>\<open>Object.prototype\<close> of that name (an object or a function, never
  nullish), else \<^verbatim>\<open>null\<close>.
\<close>

datatype property_value =
    OwnString string
  | PrototypeMember string
  | Null

definition object_get :: "(string \<times> string) list \<Rightarrow> string \<Rightarrow> property_value" where
  "object_get obj key =
     (case map_of obj key of
        Some v \<Rightarrow> OwnString v
      | None \<Rightarrow> if key \<in> set Object_prototype_names then PrototypeMember key else Null)"

text \<open>
  \<^verbatim>\<open>obj[key] = value\<close> with a string \<^verbatim>\<open>value\<close>: an own property is overwritten in place; a
  key that is not an own property is added at the end, unless it is \<^verbatim>\<open>__proto__\<close>, where
  the inherited setter runs and, the value being a string, nothing is stored.
\<close>

definition object_set :: "string \<Rightarrow> string \<Rightarrow> (string \<times> string) list \<Rightarrow> (string \<times> string) list" where
  "object_set key val obj =
     (if key = ''__proto__'' \<and> map_of obj key = None then obj else AList.update key val obj)"

record IdentityInfo =
  info_did :: string
  info_publicKey :: bytes

record RegistrationResult =
  reg_did :: string
  reg_recoveryCode :: string

record RecoveryOptions =
  opt_recoveryCode :: string
  opt_newPassword :: string
  opt_did :: "string option"
  opt_rotateRecoveryCode :: "bool option"

record RecoveryResult =
  rr_did :: string
  rr_newRecoveryCode :: "string option"

section \<open>Ports\<close>

subsection \<open>Storage port (domain/IStorage)\<close>

text \<open>
  \<^verbatim>\<open>IStorage\<close> over a store state \<open>'s\<close>. Every method may reject (throw); a rejected
  call leaves the store as it was. The envelope that \<^verbatim>\<open>get\<close> returns is a value: the use
  cases assign to its fields only between their last fallible step and \<^verbatim>\<open>save\<close>, so a
  store that hands out its own object (the mock, whose \<^verbatim>\<open>save\<close> never rejects) and one that
  hands out a copy (IndexedDB) behave alike.
\<close>

record 's IStorage =
  st_save :: "'s \<Rightarrow> string \<Rightarrow> EncryptedVaultBlob \<Rightarrow> error + 's"
  st_get :: "'s \<Rightarrow> string \<Rightarrow> error + EncryptedVaultBlob option"
  st_remove :: "'s \<Rightarrow> string \<Rightarrow> error + 's"
  st_listKeys :: "'s \<Rightarrow> error + string list"
  st_clear :: "'s \<Rightarrow> error + 's"

text \<open>
  \<^verbatim>\<open>MockStorage\<close> (tests/mocks): a JavaScript \<^verbatim>\<open>Map\<close>, which keeps insertion order and
  replaces the value of an existing key in place.
\<close>

definition MockStorage :: "((string \<times> EncryptedVaultBlob) list) IStorage" where
  "MockStorage = \<lparr>
     st_save = (\<lambda>db key data. Inr (AList.update key data db)),
     st_get = (\<lambda>db key. Inr (map_of db key)),
     st_remove = (\<lambda>db key. Inr (AList.delete key db)),
     st_listKeys = (\<lambda>db. Inr (map fst db)),
     st_clear = (\<lambda>db. Inr [])
   \<rparr>"

text \<open>The store law the engine relies on: a successful write is read back.\<close>

definition read_your_writes :: "'s IStorage \<Rightarrow> bool" where
  "read_your_writes S \<longleftrightarrow>
     (\<forall>s key data s'. st_save S s key data = Inr s' \<longrightarrow> st_get S s' key = Inr (Some data))"

subsection \<open>Crypto port (application/ports/ICryptoPort)\<close>

text \<open>
  A client is an identity held by the provider. Its getters are fields; its methods that
  take arguments are functions of the port (below).
\<close>

record ICryptoClient =
  client_did :: string
  client_public_key :: bytes

text \<open>
  Key generation, the AEAD nonce and the random source are not functions of their
  arguments: the calls that draw on them take the number of such draws made so far
  (\<open>w_tick\<close> of the state below).
\<close>

record ICryptoPort =
  cp_init :: "error + unit"
  createIdentity :: "nat \<Rightarrow> error + ICryptoClient"
  restoreIdentity :: "bytes \<Rightarrow> bytes \<Rightarrow> error + ICryptoClient"
  deriveSessionKey :: "string \<Rightarrow> bytes \<Rightarrow> error + bytes"
  encryptVault :: "nat \<Rightarrow> bytes \<Rightarrow> string \<Rightarrow> error + bytes"
  decryptVault :: "bytes \<Rightarrow> string \<Rightarrow> error + bytes"
  getRandomValues :: "nat \<Rightarrow> nat \<Rightarrow> bytes"
  export_wrapped_secret :: "ICryptoClient \<Rightarrow> bytes \<Rightarrow> error + bytes"
  sign_data :: "ICryptoClient \<Rightarrow> bytes \<Rightarrow> error + bytes"

subsection \<open>Platform\<close>

text \<open>
  The builtins the engine calls: \<^verbatim>\<open>btoa\<close>, \<^verbatim>\<open>atob\<close>, \<^verbatim>\<open>JSON.stringify\<close> with
  \<^verbatim>\<open>TextEncoder\<close>, \<^verbatim>\<open>TextDecoder\<close> with \<^verbatim>\<open>JSON.parse\<close>, and \<^verbatim>\<open>Date.now\<close>. The value
  \<^verbatim>\<open>JSON.parse\<close> returns is taken at the type the source declares for it,
  \<^verbatim>\<open>VaultInternalData\<close>.
\<close>

record platform =
  btoa :: "string \<Rightarrow> string"
  atob :: "string \<Rightarrow> error + string"
  json_stringify :: "VaultInternalData \<Rightarrow> bytes"
  json_parse :: "bytes \<Rightarrow> error + VaultInternalData"
  date_now :: "nat \<Rightarrow> nat"

subsection \<open>Encoding utilities (utils/encoding)\<close>

definition toBase64 :: "platform \<Rightarrow> bytes \<Rightarrow> string" where
  "toBase64 P bs = btoa P (map (\<lambda>x. char_of (unat x)) bs)"

definition fromBase64 :: "platform \<Rightarrow> string \<Rightarrow> error + bytes" where
  "fromBase64 P base64 =
     (case atob P base64 of
        Inl e \<Rightarrow> Inl e
      | Inr binString \<Rightarrow> Inr (map (\<lambda>m. of_nat (of_char m)) binString))"

section \<open>State\<close>

text \<open>
  \<^verbatim>\<open>SessionData\<close> of the session manager. The session key is a \<^verbatim>\<open>Uint8Array\<close>, a mutable
  buffer that the session holds by reference: \<open>sess_sessionKey\<close> is the address of the
  buffer in \<open>w_heap\<close>. The other byte arrays of the engine are temporaries that nothing
  aliases; they are values.
\<close>

record SessionData =
  sess_client :: ICryptoClient
  sess_sessionKey :: nat
  sess_did :: string
  sess_password :: string
  sess_secrets :: "(string \<times> string) list"

text \<open>
  One engine instance with what it acts on: the store, \<^verbatim>\<open>SessionManager._session\<close>, the two
  flags of the facade, the session-key buffers, the clients on which \<^verbatim>\<open>free()\<close> was called
  (in call order), and the number of draws on time and randomness made so far.
\<close>

record 's world =
  w_storage :: 's
  w_session :: "SessionData option"
  w_isInitialized :: bool
  w_isDisposed :: bool
  w_heap :: "bytes list"
  w_freed :: "ICryptoClient list"
  w_tick :: nat

definition tick :: "'s world \<Rightarrow> 's world" where
  "tick \<sigma> = \<sigma>\<lparr>w_tick := Suc (w_tick \<sigma>)\<rparr>"

text \<open>A fresh \<^verbatim>\<open>Uint8Array\<close> holding \<open>bs\<close>: its address and the new heap.\<close>

definition alloc :: "bytes \<Rightarrow> 's world \<Rightarrow> nat \<times> 's world" where
  "alloc bs \<sigma> = (length (w_heap \<sigma>), \<sigma>\<lparr>w_heap := w_heap \<sigma> @ [bs]\<rparr>)"

section \<open>Session manager (application/services/SessionManager)\<close>

text \<open>
  \<^verbatim>\<open>clear\<close>: with a session, call \<^verbatim>\<open>client.free()\<close> (an exception of it is caught and
  ignored) and set \<^verbatim>\<open>_session\<close> to null. Nothing is written to the key buffer.
\<close>

definition SessionManager_clear :: "'s world \<Rightarrow> 's world" where
  "SessionManager_clear \<sigma> =
     (case w_session \<sigma> of
        None \<Rightarrow> \<sigma>
      | Some sd \<Rightarrow> \<sigma>\<lparr>w_freed := w_freed \<sigma> @ [sess_client sd], w_session := None\<rparr>)"

definition SessionManager_establish ::
  "ICryptoClient \<Rightarrow> nat \<Rightarrow> string \<Rightarrow> string \<Rightarrow> (string \<times> string) list \<Rightarrow> 's world \<Rightarrow> 's world"
where
  "SessionManager_establish client sessionKey did password secrets \<sigma> =
     (SessionManager_clear \<sigma>)\<lparr>w_session := Some \<lparr>
        sess_client = client, sess_sessionKey = sessionKey, sess_did = did,
        sess_password = password, sess_secrets = secrets\<rparr>\<rparr>"

definition SessionManager_isAuthenticated :: "'s world \<Rightarrow> bool" where
  "SessionManager_isAuthenticated \<sigma> \<longleftrightarrow> w_session \<sigma> \<noteq> None"

definition SessionManager_getDid :: "'s world \<Rightarrow> error + string" where
  "SessionManager_getDid \<sigma> =
     (case w_session \<sigma> of None \<Rightarrow> Inl NotAuthenticatedError | Some sd \<Rightarrow> Inr (sess_did sd))"

definition SessionManager_getClient :: "'s world \<Rightarrow> error + ICryptoClient" where
  "SessionManager_getClient \<sigma> =
     (case w_session \<sigma> of None \<Rightarrow> Inl NotAuthenticatedError | Some sd \<Rightarrow> Inr (sess_client sd))"

definition SessionManager_getSessionKey :: "'s world \<Rightarrow> error + nat" where
  "SessionManager_getSessionKey \<sigma> =
     (case w_session \<sigma> of None \<Rightarrow> Inl NotAuthenticatedError | Some sd \<Rightarrow> Inr (sess_sessionKey sd))"

definition SessionManager_getPassword :: "'s world \<Rightarrow> error + string" where
  "SessionManager_getPassword \<sigma> =
     (case w_session \<sigma> of None \<Rightarrow> Inl NotAuthenticatedError | Some sd \<Rightarrow> Inr (sess_password sd))"

text \<open>
  \<^verbatim>\<open>getSecret\<close>: \<^verbatim>\<open>return this._session!.secrets[key] ?? null\<close>. The declared type is
  \<^verbatim>\<open>string | null\<close>; at run time the value is whatever the property read gives.
\<close>

definition SessionManager_getSecret :: "string \<Rightarrow> 's world \<Rightarrow> error + property_value" where
  "SessionManager_getSecret key \<sigma> =
     (case w_session \<sigma> of
        None \<Rightarrow> Inl NotAuthenticatedError
      | Some sd \<Rightarrow> Inr (object_get (sess_secrets sd) key))"

text \<open>\<^verbatim>\<open>setSecret\<close>: \<^verbatim>\<open>this._session!.secrets[key] = value\<close>.\<close>

definition SessionManager_setSecret :: "string \<Rightarrow> string \<Rightarrow> 's world \<Rightarrow> (error + unit) \<times> 's world" where
  "SessionManager_setSecret key val \<sigma> =
     (case w_session \<sigma> of
        None \<Rightarrow> (Inl NotAuthenticatedError, \<sigma>)
      | Some sd \<Rightarrow>
          (Inr (), \<sigma>\<lparr>w_session := Some (sd\<lparr>sess_secrets := object_set key val (sess_secrets sd)\<rparr>)\<rparr>))"

definition SessionManager_deleteSecret :: "string \<Rightarrow> 's world \<Rightarrow> (error + unit) \<times> 's world" where
  "SessionManager_deleteSecret key \<sigma> =
     (case w_session \<sigma> of
        None \<Rightarrow> (Inl NotAuthenticatedError, \<sigma>)
      | Some sd \<Rightarrow>
          (Inr (), \<sigma>\<lparr>w_session := Some (sd\<lparr>sess_secrets := AList.delete key (sess_secrets sd)\<rparr>)\<rparr>))"

definition SessionManager_getAllSecrets :: "'s world \<Rightarrow> error + (string \<times> string) list" where
  "SessionManager_getAllSecrets \<sigma> =
     (case w_session \<sigma> of None \<Rightarrow> Inl NotAuthenticatedError | Some sd \<Rightarrow> Inr (sess_secrets sd))"

section \<open>Recovery code\<close>

text \<open>
  \<^verbatim>\<open>generateRecoveryCode\<close> (the same private method in the register and the recover use
  case): 16 random bytes, each as two upper-case hexadecimal digits, in four groups of
  eight after the prefix.
\<close>

definition RECOVERY_CODE_PREFIX :: string where
  "RECOVERY_CODE_PREFIX = ''RK''"

definition RECOVERY_CODE_BYTES :: nat where
  "RECOVERY_CODE_BYTES = 16"

definition hex_digit :: "nat \<Rightarrow> char" where
  "hex_digit n = (if n < 10 then char_of (48 + n) else char_of (55 + n))"

definition byte_hex :: "8 word \<Rightarrow> string" where
  "byte_hex b = [hex_digit (unat b div 16), hex_digit (unat b mod 16)]"

definition generateRecoveryCode :: "ICryptoPort \<Rightarrow> 's world \<Rightarrow> string \<times> 's world" where
  "generateRecoveryCode C \<sigma> =
     (let bs = getRandomValues C (w_tick \<sigma>) RECOVERY_CODE_BYTES;
          hex = concat (map byte_hex bs)
      in (RECOVERY_CODE_PREFIX @ ''-'' @ take 8 hex @ ''-'' @ take 8 (drop 8 hex) @ ''-''
            @ take 8 (drop 16 hex) @ ''-'' @ take 8 (drop 24 hex),
          tick \<sigma>))"

section \<open>Register use case (application/use-cases/RegisterIdentityUseCase)\<close>

definition RegisterIdentityUseCase_execute ::
  "platform \<Rightarrow> ICryptoPort \<Rightarrow> 's IStorage \<Rightarrow> string \<Rightarrow> 's world \<Rightarrow> (error + RegistrationResult) \<times> 's world"
where
  "RegisterIdentityUseCase_execute P C S password \<sigma>0 =
     (case createIdentity C (w_tick \<sigma>0) of
        Inl e \<Rightarrow> (Inl e, tick \<sigma>0)
      | Inr client \<Rightarrow>
     let \<sigma>1 = tick \<sigma>0;
         did = client_did client;
         salt = getRandomValues C (w_tick \<sigma>1) 16;
         \<sigma>2 = tick \<sigma>1
     in (case deriveSessionKey C password salt of
        Inl e \<Rightarrow> (Inl e, \<sigma>2)
      | Inr key \<Rightarrow>
     let (sessionKey, \<sigma>3) = alloc key \<sigma>2
     in (case export_wrapped_secret C client (w_heap \<sigma>3 ! sessionKey) of
        Inl e \<Rightarrow> (Inl e, \<sigma>3)
      | Inr wrappedSecret \<Rightarrow>
     let internalData = \<lparr>vid_did = did, vid_wrappedSecret = toBase64 P wrappedSecret,
                         vid_salt = toBase64 P salt, vid_secrets = [],
                         vid_createdAt = date_now P (w_tick \<sigma>3)\<rparr>;
         \<sigma>4 = tick \<sigma>3;
         internalBytes = json_stringify P internalData
     in (case encryptVault C (w_tick \<sigma>4) internalBytes password of
        Inl e \<Rightarrow> (Inl e, tick \<sigma>4)
      | Inr encryptedMain \<Rightarrow>
     let (recoveryCode, \<sigma>5) = generateRecoveryCode C (tick \<sigma>4)
     in (case encryptVault C (w_tick \<sigma>5) internalBytes recoveryCode of
        Inl e \<Rightarrow> (Inl e, tick \<sigma>5)
      | Inr encryptedRecovery \<Rightarrow>
     let \<sigma>6 = tick \<sigma>5;
         storageBlob = \<lparr>blob_version = 1, blob_did = did, blob_salt = toBase64 P salt,
                        blob_wrappedData = toBase64 P encryptedMain,
                        blob_recoveryBlob = Some (toBase64 P encryptedRecovery),
                        blob_updatedAt = date_now P (w_tick \<sigma>6)\<rparr>;
         \<sigma>7 = tick \<sigma>6
     in (case st_save S (w_storage \<sigma>7) did storageBlob of
        Inl e \<Rightarrow> (Inl e, \<sigma>7)
      | Inr s' \<Rightarrow>
          (Inr \<lparr>reg_did = did, reg_recoveryCode = recoveryCode\<rparr>,
           SessionManager_establish client sessionKey did password []
             (\<sigma>7\<lparr>w_storage := s'\<rparr>))))))))"

section \<open>Login use case (application/use-cases/LoginUseCase)\<close>

text \<open>
  Step 1 of \<^verbatim>\<open>execute\<close>: \<^verbatim>\<open>did ?? ''\<close>, and when that is falsy (the empty string) the first
  key the store lists.
\<close>

definition LoginUseCase_resolve :: "'s IStorage \<Rightarrow> string option \<Rightarrow> 's \<Rightarrow> error + string" where
  "LoginUseCase_resolve S did s =
     (let targetDid = (case did of None \<Rightarrow> [] | Some d \<Rightarrow> d)
      in if targetDid = [] then
           (case st_listKeys S s of
              Inl e \<Rightarrow> Inl e
            | Inr keys \<Rightarrow>
                (case keys of
                   [] \<Rightarrow> Inl (AuthenticationError ''No identities found in storage'')
                 | k # _ \<Rightarrow> Inr k))
         else Inr targetDid)"

text \<open>
  Steps 2 to 7. Only step 3 (decode and decrypt) and step 4 (decode and parse) sit in a
  \<^verbatim>\<open>try\<close>; an exception of any other call leaves \<^verbatim>\<open>execute\<close> as it is.
\<close>

definition LoginUseCase_unlock ::
  "platform \<Rightarrow> ICryptoPort \<Rightarrow> 's IStorage \<Rightarrow> string \<Rightarrow> string \<Rightarrow> 's world \<Rightarrow> (error + IdentityInfo) \<times> 's world"
where
  "LoginUseCase_unlock P C S password targetDid \<sigma> =
     (case st_get S (w_storage \<sigma>) targetDid of
        Inl e \<Rightarrow> (Inl e, \<sigma>)
      | Inr None \<Rightarrow> (Inl (AuthenticationError (''Identity '' @ targetDid @ '' not found'')), \<sigma>)
      | Inr (Some storedBlob) \<Rightarrow>
     (case (case fromBase64 P (blob_wrappedData storedBlob) of
              Inl e \<Rightarrow> Inl e
            | Inr ct \<Rightarrow> decryptVault C ct password) of
        Inl _ \<Rightarrow> (Inl (AuthenticationError ''Invalid password or corrupted vault''), \<sigma>)
      | Inr decryptedBytes \<Rightarrow>
     (case json_parse P decryptedBytes of
        Inl _ \<Rightarrow> (Inl (VaultError ''Vault data corruption: Invalid JSON'' ''CORRUPT_DATA''), \<sigma>)
      | Inr internalData \<Rightarrow>
     if vid_did internalData \<noteq> targetDid then
       (Inl (VaultError ''Integrity error: DID mismatch inside vault'' ''INTEGRITY_ERROR''), \<sigma>)
     else
     (case fromBase64 P (vid_salt internalData) of
        Inl e \<Rightarrow> (Inl e, \<sigma>)
      | Inr salt \<Rightarrow>
     (case deriveSessionKey C password salt of
        Inl e \<Rightarrow> (Inl e, \<sigma>)
      | Inr key \<Rightarrow>
     let (sessionKey, \<sigma>1) = alloc key \<sigma>
     in (case fromBase64 P (vid_wrappedSecret internalData) of
        Inl e \<Rightarrow> (Inl e, \<sigma>1)
      | Inr wrappedSecret \<Rightarrow>
     (case restoreIdentity C wrappedSecret (w_heap \<sigma>1 ! sessionKey) of
        Inl e \<Rightarrow> (Inl e, \<sigma>1)
      | Inr client \<Rightarrow>
          (Inr \<lparr>info_did = targetDid, info_publicKey = client_public_key client\<rparr>,
           SessionManager_establish client sessionKey targetDid password
             (vid_secrets internalData) \<sigma>1))))))))"

definition LoginUseCase_execute ::
  "platform \<Rightarrow> ICryptoPort \<Rightarrow> 's IStorage \<Rightarrow> string \<Rightarrow> string option \<Rightarrow> 's world \<Rightarrow> (error + IdentityInfo) \<times> 's world"
where
  "LoginUseCase_execute P C S password did \<sigma> =
     (case LoginUseCase_resolve S did (w_storage \<sigma>) of
        Inl e \<Rightarrow> (Inl e, \<sigma>)
      | Inr targetDid \<Rightarrow> LoginUseCase_unlock P C S password targetDid \<sigma>)"

section \<open>Recover use case (application/use-cases/RecoverAccountUseCase)\<close>

definition RecoverAccountUseCase_resolve :: "'s IStorage \<Rightarrow> string option \<Rightarrow> 's \<Rightarrow> error + string" where
  "RecoverAccountUseCase_resolve S did s =
     (let targetDid = (case did of None \<Rightarrow> [] | Some d \<Rightarrow> d)
      in if targetDid = [] then
           (case st_listKeys S s of
              Inl e \<Rightarrow> Inl e
            | Inr keys \<Rightarrow>
                (case keys of
                   [] \<Rightarrow> Inl (AuthenticationError ''No vaults found'')
                 | k # _ \<Rightarrow> Inr k))
         else Inr targetDid)"

text \<open>
  Steps 2 to 8. \<^verbatim>\<open>!stored.recoveryBlob\<close> holds for a missing field and for the empty
  string. The use case is built from the crypto port and the store only: it has no
  session manager.
\<close>

definition RecoverAccountUseCase_rewrap ::
  "platform \<Rightarrow> ICryptoPort \<Rightarrow> 's IStorage \<Rightarrow> RecoveryOptions \<Rightarrow> string \<Rightarrow> 's world \<Rightarrow> (error + RecoveryResult) \<times> 's world"
where
  "RecoverAccountUseCase_rewrap P C S options targetDid \<sigma> =
     (let rotateRecoveryCode = (case opt_rotateRecoveryCode options of None \<Rightarrow> False | Some b \<Rightarrow> b)
      in
     (case st_get S (w_storage \<sigma>) targetDid of
        Inl e \<Rightarrow> (Inl e, \<sigma>)
      | Inr None \<Rightarrow> (Inl (AuthenticationError (''Identity '' @ targetDid @ '' not found'')), \<sigma>)
      | Inr (Some stored) \<Rightarrow>
     (case (case blob_recoveryBlob stored of None \<Rightarrow> None
                                           | Some rb \<Rightarrow> if rb = [] then None else Some rb) of
        None \<Rightarrow>
          (Inl (VaultError
             ''Recovery not available for this identity. It may have been created with an older SDK version.''
             ''RECOVERY_UNAVAILABLE''), \<sigma>)
      | Some recoveryBlob \<Rightarrow>
     (case (case fromBase64 P recoveryBlob of
              Inl e \<Rightarrow> Inl e
            | Inr ct \<Rightarrow> decryptVault C ct (opt_recoveryCode options)) of
        Inl _ \<Rightarrow> (Inl (AuthenticationError ''Invalid Recovery Code''), \<sigma>)
      | Inr decryptedBytes \<Rightarrow>
     (case json_parse P decryptedBytes of
        Inl _ \<Rightarrow> (Inl (VaultError ''Vault data corruption during recovery'' ''CORRUPT_DATA''), \<sigma>)
      | Inr _ \<Rightarrow>
     (case encryptVault C (w_tick \<sigma>) decryptedBytes (opt_newPassword options) of
        Inl e \<Rightarrow> (Inl e, tick \<sigma>)
      | Inr newEncryptedMain \<Rightarrow>
     let \<sigma>1 = tick \<sigma>
     in (case (if rotateRecoveryCode then
                 (let (generatedRecoveryCode, \<sigma>2) = generateRecoveryCode C \<sigma>1
                  in (case encryptVault C (w_tick \<sigma>2) decryptedBytes generatedRecoveryCode of
                        Inl e \<Rightarrow> (Inl e, tick \<sigma>2)
                      | Inr newEncryptedRecovery \<Rightarrow>
                          (Inr (toBase64 P newEncryptedRecovery, Some generatedRecoveryCode),
                           tick \<sigma>2)))
               else (Inr (recoveryBlob, None), \<sigma>1)) of
        (Inl e, \<sigma>3) \<Rightarrow> (Inl e, \<sigma>3)
      | (Inr (newRecoveryBlob, generatedRecoveryCode), \<sigma>3) \<Rightarrow>
     let stored' = stored\<lparr>blob_wrappedData := toBase64 P newEncryptedMain,
                          blob_recoveryBlob := Some newRecoveryBlob,
                          blob_updatedAt := date_now P (w_tick \<sigma>3)\<rparr>;
         \<sigma>4 = tick \<sigma>3
     in (case st_save S (w_storage \<sigma>4) targetDid stored' of
        Inl e \<Rightarrow> (Inl e, \<sigma>4)
      | Inr s' \<Rightarrow>
          (Inr \<lparr>rr_did = targetDid, rr_newRecoveryCode = generatedRecoveryCode\<rparr>,
           \<sigma>4\<lparr>w_storage := s'\<rparr>)))))))))"

definition RecoverAccountUseCase_execute ::
  "platform \<Rightarrow> ICryptoPort \<Rightarrow> 's IStorage \<Rightarrow> RecoveryOptions \<Rightarrow> 's world \<Rightarrow> (error + RecoveryResult) \<times> 's world"
where
  "RecoverAccountUseCase_execute P C S options \<sigma> =
     (case RecoverAccountUseCase_resolve S (opt_did options) (w_storage \<sigma>) of
        Inl e \<Rightarrow> (Inl e, \<sigma>)
      | Inr targetDid \<Rightarrow> RecoverAccountUseCase_rewrap P C S options targetDid \<sigma>)"

section \<open>Secret management use case (application/use-cases/SecretManagementUseCase)\<close>

text \<open>
  \<^verbatim>\<open>saveSecret\<close>: after the session check, \<^verbatim>\<open>getDid\<close> and \<^verbatim>\<open>getPassword\<close> cannot throw, and
  \<^verbatim>\<open>setSecret\<close> updates the cache before the store is read. Nothing here is in a \<^verbatim>\<open>try\<close>.
\<close>

definition SecretManagementUseCase_saveSecret ::
  "platform \<Rightarrow> ICryptoPort \<Rightarrow> 's IStorage \<Rightarrow> string \<Rightarrow> string \<Rightarrow> 's world \<Rightarrow> (error + unit) \<times> 's world"
where
  "SecretManagementUseCase_saveSecret P C S key val \<sigma>0 =
     (case w_session \<sigma>0 of
        None \<Rightarrow> (Inl NotAuthenticatedError, \<sigma>0)
      | Some sd \<Rightarrow>
     let did = sess_did sd;
         password = sess_password sd;
         \<sigma> = snd (SessionManager_setSecret key val \<sigma>0)
     in (case st_get S (w_storage \<sigma>) did of
        Inl e \<Rightarrow> (Inl e, \<sigma>)
      | Inr None \<Rightarrow> (Inl (VaultError ''Storage corruption during save'' ''STORAGE_ERROR''), \<sigma>)
      | Inr (Some stored) \<Rightarrow>
     (case fromBase64 P (blob_wrappedData stored) of
        Inl e \<Rightarrow> (Inl e, \<sigma>)
      | Inr ct \<Rightarrow>
     (case decryptVault C ct password of
        Inl e \<Rightarrow> (Inl e, \<sigma>)
      | Inr decrypted \<Rightarrow>
     (case json_parse P decrypted of
        Inl e \<Rightarrow> (Inl e, \<sigma>)
      | Inr originalData \<Rightarrow>
     (case SessionManager_getAllSecrets \<sigma> of
        Inl e \<Rightarrow> (Inl e, \<sigma>)
      | Inr allSecrets \<Rightarrow>
     let originalData' = originalData\<lparr>vid_secrets := allSecrets,
                                      vid_createdAt := date_now P (w_tick \<sigma>)\<rparr>;
         \<sigma>1 = tick \<sigma>;
         updatedBytes = json_stringify P originalData'
     in (case encryptVault C (w_tick \<sigma>1) updatedBytes password of
        Inl e \<Rightarrow> (Inl e, tick \<sigma>1)
      | Inr newEncryptedMain \<Rightarrow>
     let \<sigma>2 = tick \<sigma>1;
         stored' = stored\<lparr>blob_wrappedData := toBase64 P newEncryptedMain,
                          blob_updatedAt := date_now P (w_tick \<sigma>2)\<rparr>;
         \<sigma>3 = tick \<sigma>2
     in (case st_save S (w_storage \<sigma>3) did stored' of
        Inl e \<Rightarrow> (Inl e, \<sigma>3)
      | Inr s' \<Rightarrow> (Inr (), \<sigma>3\<lparr>w_storage := s'\<rparr>)))))))))"

definition SecretManagementUseCase_getSecret :: "string \<Rightarrow> 's world \<Rightarrow> error + property_value" where
  "SecretManagementUseCase_getSecret key \<sigma> =
     (if \<not> SessionManager_isAuthenticated \<sigma> then Inl NotAuthenticatedError
      else SessionManager_getSecret key \<sigma>)"

text \<open>
  \<^verbatim>\<open>deleteSecret\<close>: the key is deleted from the cache first, then from the secrets of the
  persisted payload (not replaced by the cache, as \<^verbatim>\<open>saveSecret\<close> does).
\<close>

definition SecretManagementUseCase_deleteSecret ::
  "platform \<Rightarrow> ICryptoPort \<Rightarrow> 's IStorage \<Rightarrow> string \<Rightarrow> 's world \<Rightarrow> (error + unit) \<times> 's world"
where
  "SecretManagementUseCase_deleteSecret P C S key \<sigma>0 =
     (case w_session \<sigma>0 of
        None \<Rightarrow> (Inl NotAuthenticatedError, \<sigma>0)
      | Some sd \<Rightarrow>
     let did = sess_did sd;
         password = sess_password sd;
         \<sigma> = snd (SessionManager_deleteSecret key \<sigma>0)
     in (case st_get S (w_storage \<sigma>) did of
        Inl e \<Rightarrow> (Inl e, \<sigma>)
      | Inr None \<Rightarrow> (Inl (VaultError ''Storage corruption during delete'' ''STORAGE_ERROR''), \<sigma>)
      | Inr (Some stored) \<Rightarrow>
     (case fromBase64 P (blob_wrappedData stored) of
        Inl e \<Rightarrow> (Inl e, \<sigma>)
      | Inr ct \<Rightarrow>
     (case decryptVault C ct password of
        Inl e \<Rightarrow> (Inl e, \<sigma>)
      | Inr decrypted \<Rightarrow>
     (case json_parse P decrypted of
        Inl e \<Rightarrow> (Inl e, \<sigma>)
      | Inr originalData \<Rightarrow>
     let originalData' = originalData\<lparr>vid_secrets := AList.delete key (vid_secrets originalData),
                                      vid_createdAt := date_now P (w_tick \<sigma>)\<rparr>;
         \<sigma>1 = tick \<sigma>;
         updatedBytes = json_stringify P originalData'
     in (case encryptVault C (w_tick \<sigma>1) updatedBytes password of
        Inl e \<Rightarrow> (Inl e, tick \<sigma>1)
      | Inr newEncryptedMain \<Rightarrow>
     let \<sigma>2 = tick \<sigma>1;
         stored' = stored\<lparr>blob_wrappedData := toBase64 P newEncryptedMain,
                          blob_updatedAt := date_now P (w_tick \<sigma>2)\<rparr>;
         \<sigma>3 = tick \<sigma>2
     in (case st_save S (w_storage \<sigma>3) did stored' of
        Inl e \<Rightarrow> (Inl e, \<sigma>3)
      | Inr s' \<Rightarrow> (Inr (), \<sigma>3\<lparr>w_storage := s'\<rparr>))))))))"

section \<open>WASM crypto adapter (adapters/WasmCryptoAdapter)\<close>

text \<open>
  The exports of the WASM core that the adapter calls. The core itself is not part of
  the repository; it is a parameter.
\<close>

record P47hWasmModule =
  wasm_new_P47hClient :: "nat \<Rightarrow> error + ICryptoClient"
  wasm_from_wrapped_secret :: "bytes \<Rightarrow> bytes \<Rightarrow> error + ICryptoClient"
  wasm_encrypt_vault :: "nat \<Rightarrow> bytes \<Rightarrow> string \<Rightarrow> error + bytes"
  wasm_decrypt_vault :: "bytes \<Rightarrow> string \<Rightarrow> error + bytes"
  wasm_derive_session_key :: "string \<Rightarrow> bytes \<Rightarrow> error + bytes"
  wasm_export_wrapped_secret :: "ICryptoClient \<Rightarrow> bytes \<Rightarrow> error + bytes"
  wasm_sign_data :: "ICryptoClient \<Rightarrow> bytes \<Rightarrow> error + bytes"

text \<open>
  \<^verbatim>\<open>getModule\<close> of an adapter whose \<^verbatim>\<open>init()\<close> loaded (or failed to load) the core.
\<close>

definition getModule :: "error + P47hWasmModule \<Rightarrow> error + P47hWasmModule" where
  "getModule loaded =
     (case loaded of
        Inl _ \<Rightarrow> Inl (InitializationError ''WasmCryptoAdapter not initialized. Call init() first.'' None)
      | Inr m \<Rightarrow> Inr m)"

text \<open>Each adapter method is \<^verbatim>\<open>try { ... } catch (e) { throw new CryptoError(msg, e) }\<close>.\<close>

definition catch_CryptoError :: "string \<Rightarrow> error + 'a \<Rightarrow> error + 'a" where
  "catch_CryptoError msg r = (case r of Inl e \<Rightarrow> Inl (CryptoError msg (Some e)) | Inr x \<Rightarrow> Inr x)"

definition WasmCryptoAdapter :: "error + P47hWasmModule \<Rightarrow> (nat \<Rightarrow> nat \<Rightarrow> bytes) \<Rightarrow> ICryptoPort" where
  "WasmCryptoAdapter loaded crypto_getRandomValues = \<lparr>
     cp_init =
       (case loaded of
          Inl e \<Rightarrow> Inl (InitializationError ''Failed to load P47H WASM core'' (Some e))
        | Inr _ \<Rightarrow> Inr ()),
     createIdentity = (\<lambda>t.
       catch_CryptoError ''Failed to generate new identity''
         (case getModule loaded of Inl e \<Rightarrow> Inl e | Inr m \<Rightarrow> wasm_new_P47hClient m t)),
     restoreIdentity = (\<lambda>wrappedSecret sessionKey.
       catch_CryptoError ''Failed to restore identity from wrapped secret''
         (case getModule loaded of
            Inl e \<Rightarrow> Inl e
          | Inr m \<Rightarrow> wasm_from_wrapped_secret m wrappedSecret sessionKey)),
     deriveSessionKey = (\<lambda>password salt.
       catch_CryptoError ''Failed to derive session key''
         (case getModule loaded of
            Inl e \<Rightarrow> Inl e
          | Inr m \<Rightarrow> wasm_derive_session_key m password salt)),
     encryptVault = (\<lambda>t data password.
       catch_CryptoError ''Vault encryption failed''
         (case getModule loaded of
            Inl e \<Rightarrow> Inl e
          | Inr m \<Rightarrow> wasm_encrypt_vault m t data password)),
     decryptVault = (\<lambda>encryptedData password.
       catch_CryptoError ''Vault decryption failed: Invalid password or corrupted data''
         (case getModule loaded of
            Inl e \<Rightarrow> Inl e
          | Inr m \<Rightarrow> wasm_decrypt_vault m encryptedData password)),
     getRandomValues = crypto_getRandomValues,
     export_wrapped_secret = (\<lambda>client sessionKey.
       (case loaded of Inl e \<Rightarrow> Inl e | Inr m \<Rightarrow> wasm_export_wrapped_secret m client sessionKey)),
     sign_data = (\<lambda>client data.
       (case loaded of Inl e \<Rightarrow> Inl e | Inr m \<Rightarrow> wasm_sign_data m client data))
   \<rparr>"

section \<open>Vault facade (logic/VaultFacade)\<close>

definition ensureNotDisposed :: "'s world \<Rightarrow> error + unit" where
  "ensureNotDisposed \<sigma> =
     (if w_isDisposed \<sigma> then Inl (VaultError ''VaultFacade has been disposed'' ''DISPOSED'')
      else Inr ())"

definition ensureInitialized :: "'s world \<Rightarrow> error + unit" where
  "ensureInitialized \<sigma> =
     (case ensureNotDisposed \<sigma> of
        Inl e \<Rightarrow> Inl e
      | Inr _ \<Rightarrow>
          if \<not> w_isInitialized \<sigma> then
            Inl (InitializationError ''VaultFacade not initialized. Call init() first.'' None)
          else Inr ())"

definition ensureAuthenticated :: "'s world \<Rightarrow> error + unit" where
  "ensureAuthenticated \<sigma> =
     (case ensureInitialized \<sigma> of
        Inl e \<Rightarrow> Inl e
      | Inr _ \<Rightarrow>
          if \<not> SessionManager_isAuthenticated \<sigma> then Inl NotAuthenticatedError else Inr ())"

text \<open>
  \<^verbatim>\<open>init\<close>: the port \<open>C\<close> is the adapter in effect (the one built for \<^verbatim>\<open>config.wasmPath\<close>
  when that is given). The use cases are created before \<^verbatim>\<open>_isInitialized\<close> is set, and every
  method that uses one checks that flag first.
\<close>

definition VaultFacade_init :: "ICryptoPort \<Rightarrow> 's world \<Rightarrow> (error + unit) \<times> 's world" where
  "VaultFacade_init C \<sigma> =
     (case ensureNotDisposed \<sigma> of
        Inl e \<Rightarrow> (Inl e, \<sigma>)
      | Inr _ \<Rightarrow>
          if w_isInitialized \<sigma> then (Inr (), \<sigma>)
          else (case cp_init C of
                  Inl e \<Rightarrow> (Inl e, \<sigma>)
                | Inr _ \<Rightarrow> (Inr (), \<sigma>\<lparr>w_isInitialized := True\<rparr>)))"

definition VaultFacade_register ::
  "platform \<Rightarrow> ICryptoPort \<Rightarrow> 's IStorage \<Rightarrow> string \<Rightarrow> 's world \<Rightarrow> (error + RegistrationResult) \<times> 's world"
where
  "VaultFacade_register P C S password \<sigma> =
     (case ensureInitialized \<sigma> of
        Inl e \<Rightarrow> (Inl e, \<sigma>)
      | Inr _ \<Rightarrow> RegisterIdentityUseCase_execute P C S password \<sigma>)"

definition VaultFacade_login ::
  "platform \<Rightarrow> ICryptoPort \<Rightarrow> 's IStorage \<Rightarrow> string \<Rightarrow> string option \<Rightarrow> 's world \<Rightarrow> (error + IdentityInfo) \<times> 's world"
where
  "VaultFacade_login P C S password did \<sigma> =
     (case ensureInitialized \<sigma> of
        Inl e \<Rightarrow> (Inl e, \<sigma>)
      | Inr _ \<Rightarrow> LoginUseCase_execute P C S password did \<sigma>)"

text \<open>\<^verbatim>\<open>recoverAccount\<close>: the use case, then \<^verbatim>\<open>this.login(options.newPassword, result.did)\<close>.\<close>

definition VaultFacade_recoverAccount ::
  "platform \<Rightarrow> ICryptoPort \<Rightarrow> 's IStorage \<Rightarrow> RecoveryOptions \<Rightarrow> 's world \<Rightarrow> (error + RecoveryResult) \<times> 's world"
where
  "VaultFacade_recoverAccount P C S options \<sigma> =
     (case ensureInitialized \<sigma> of
        Inl e \<Rightarrow> (Inl e, \<sigma>)
      | Inr _ \<Rightarrow>
          (case RecoverAccountUseCase_execute P C S options \<sigma> of
             (Inl e, \<sigma>1) \<Rightarrow> (Inl e, \<sigma>1)
           | (Inr result, \<sigma>1) \<Rightarrow>
               (case VaultFacade_login P C S (opt_newPassword options) (Some (rr_did result)) \<sigma>1 of
                  (Inl e, \<sigma>2) \<Rightarrow> (Inl e, \<sigma>2)
                | (Inr _, \<sigma>2) \<Rightarrow> (Inr result, \<sigma>2))))"

definition VaultFacade_lock :: "'s world \<Rightarrow> 's world" where
  "VaultFacade_lock \<sigma> = SessionManager_clear \<sigma>"

definition VaultFacade_isAuthenticated :: "'s world \<Rightarrow> bool" where
  "VaultFacade_isAuthenticated \<sigma> \<longleftrightarrow> SessionManager_isAuthenticated \<sigma> \<and> \<not> w_isDisposed \<sigma>"

definition VaultFacade_getDid :: "'s world \<Rightarrow> error + string" where
  "VaultFacade_getDid \<sigma> =
     (case ensureAuthenticated \<sigma> of Inl e \<Rightarrow> Inl e | Inr _ \<Rightarrow> SessionManager_getDid \<sigma>)"

definition VaultFacade_getStoredIdentities :: "'s IStorage \<Rightarrow> 's world \<Rightarrow> error + string list" where
  "VaultFacade_getStoredIdentities S \<sigma> =
     (case ensureInitialized \<sigma> of Inl e \<Rightarrow> Inl e | Inr _ \<Rightarrow> st_listKeys S (w_storage \<sigma>))"

definition VaultFacade_sign :: "ICryptoPort \<Rightarrow> bytes \<Rightarrow> 's world \<Rightarrow> error + bytes" where
  "VaultFacade_sign C data \<sigma> =
     (case ensureAuthenticated \<sigma> of
        Inl e \<Rightarrow> Inl e
      | Inr _ \<Rightarrow>
          (case SessionManager_getClient \<sigma> of
             Inl e \<Rightarrow> Inl e
           | Inr client \<Rightarrow> sign_data C client data))"

definition VaultFacade_saveSecret ::
  "platform \<Rightarrow> ICryptoPort \<Rightarrow> 's IStorage \<Rightarrow> string \<Rightarrow> string \<Rightarrow> 's world \<Rightarrow> (error + unit) \<times> 's world"
where
  "VaultFacade_saveSecret P C S key secret \<sigma> =
     (case ensureInitialized \<sigma> of
        Inl e \<Rightarrow> (Inl e, \<sigma>)
      | Inr _ \<Rightarrow> SecretManagementUseCase_saveSecret P C S key secret \<sigma>)"

definition VaultFacade_getSecret :: "string \<Rightarrow> 's world \<Rightarrow> error + property_value" where
  "VaultFacade_getSecret key \<sigma> =
     (case ensureInitialized \<sigma> of
        Inl e \<Rightarrow> Inl e
      | Inr _ \<Rightarrow> SecretManagementUseCase_getSecret key \<sigma>)"

definition VaultFacade_dispose :: "'s world \<Rightarrow> 's world" where
  "VaultFacade_dispose \<sigma> =
     (if w_isDisposed \<sigma> then \<sigma>
      else (VaultFacade_lock \<sigma>)\<lparr>w_isInitialized := False, w_isDisposed := True\<rparr>)"

text \<open>A facade as its constructor leaves it.\<close>

definition new_VaultFacade :: "'s \<Rightarrow> 's world" where
  "new_VaultFacade s = \<lparr>w_storage = s, w_session = None, w_isInitialized = False,
     w_isDisposed = False, w_heap = [], w_freed = [], w_tick = 0\<rparr>"

section \<open>The vault interface as calls (domain/IVault)\<close>

text \<open>
  The methods of \<^verbatim>\<open>IVault\<close>, one constructor each, and what a call returns. \<^verbatim>\<open>lock\<close>,
  \<^verbatim>\<open>isAuthenticated\<close> and \<^verbatim>\<open>dispose\<close> have no guard and no \<^verbatim>\<open>throw\<close>: they always return.
\<close>

datatype IVault_call =
    Init
  | Register string
  | Login string "string option"
  | RecoverAccount RecoveryOptions
  | Lock
  | IsAuthenticated
  | GetDid
  | GetStoredIdentities
  | Sign bytes
  | SaveSecret string string
  | GetSecret string
  | Dispose

datatype IVault_value =
    Void
  | Bool bool
  | Did string
  | Dids "string list"
  | Signature bytes
  | Secret property_value
  | Registered RegistrationResult
  | Identity IdentityInfo
  | Recovered RecoveryResult

definition returning :: "('a \<Rightarrow> IVault_value) \<Rightarrow> (error + 'a) \<times> 's world \<Rightarrow> (error + IVault_value) \<times> 's world" where
  "returning f r = (case r of (Inl e, \<sigma>) \<Rightarrow> (Inl e, \<sigma>) | (Inr x, \<sigma>) \<Rightarrow> (Inr (f x), \<sigma>))"

fun IVault_invoke ::
  "platform \<Rightarrow> ICryptoPort \<Rightarrow> 's IStorage \<Rightarrow> IVault_call \<Rightarrow> 's world \<Rightarrow> (error + IVault_value) \<times> 's world"
where
  "IVault_invoke P C S Init \<sigma> = returning (\<lambda>_. Void) (VaultFacade_init C \<sigma>)"
| "IVault_invoke P C S (Register password) \<sigma> =
     returning Registered (VaultFacade_register P C S password \<sigma>)"
| "IVault_invoke P C S (Login password did) \<sigma> =
     returning Identity (VaultFacade_login P C S password did \<sigma>)"
| "IVault_invoke P C S (RecoverAccount options) \<sigma> =
     returning Recovered (VaultFacade_recoverAccount P C S options \<sigma>)"
| "IVault_invoke P C S Lock \<sigma> = (Inr Void, VaultFacade_lock \<sigma>)"
| "IVault_invoke P C S IsAuthenticated \<sigma> = (Inr (Bool (VaultFacade_isAuthenticated \<sigma>)), \<sigma>)"
| "IVault_invoke P C S GetDid \<sigma> = returning Did (VaultFacade_getDid \<sigma>, \<sigma>)"
| "IVault_invoke P C S GetStoredIdentities \<sigma> =
     returning Dids (VaultFacade_getStoredIdentities S \<sigma>, \<sigma>)"
| "IVault_invoke P C S (Sign data) \<sigma> = returning Signature (VaultFacade_sign C data \<sigma>, \<sigma>)"
| "IVault_invoke P C S (SaveSecret key secret) \<sigma> =
     returning (\<lambda>_. Void) (VaultFacade_saveSecret P C S key secret \<sigma>)"
| "IVault_invoke P C S (GetSecret key) \<sigma> = returning Secret (VaultFacade_getSecret key \<sigma>, \<sigma>)"
| "IVault_invoke P C S Dispose \<sigma> = (Inr Void, VaultFacade_dispose \<sigma>)"

text \<open>The calls that start with a guard, and those whose guard asks for a session.\<close>

fun guarded :: "IVault_call \<Rightarrow> bool" where
  "guarded Lock = False"
| "guarded IsAuthenticated = False"
| "guarded Dispose = False"
| "guarded _ = True"

fun requires_session :: "IVault_call \<Rightarrow> bool" where
  "requires_session GetDid = True"
| "requires_session (Sign _) = True"
| "requires_session (SaveSecret _ _) = True"
| "requires_session (GetSecret _) = True"
| "requires_session _ = False"

section \<open>Test doubles (tests/mocks)\<close>

definition MockClient :: "string \<Rightarrow> ICryptoClient" where
  "MockClient did = \<lparr>client_did = did, client_public_key = [1, 2, 3]\<rparr>"

text \<open>
  \<^verbatim>\<open>MockWasmAdapter\<close>: the adapter with its methods overridden. Encryption is XOR with
  \<^verbatim>\<open>0xFF\<close>; decryption throws for the password \<^verbatim>\<open>'wrong'\<close>; the session key is the password
  bytes in a zeroed 32-byte array whose last byte is \<^verbatim>\<open>salt[0]\<close>.
\<close>

definition MockWasmAdapter :: ICryptoPort where
  "MockWasmAdapter = \<lparr>
     cp_init = Inr (),
     createIdentity = (\<lambda>t. Inr (MockClient ''did:p47h:mock-identity'')),
     restoreIdentity = (\<lambda>wrappedSecret sessionKey. Inr (MockClient ''did:p47h:mock-identity'')),
     deriveSessionKey = (\<lambda>password salt.
       Inr ((take 32 (map (\<lambda>c. of_nat (of_char c)) password @ replicate 32 0))
              [31 := (case salt of [] \<Rightarrow> 0 | x # _ \<Rightarrow> x)])),
     encryptVault = (\<lambda>t data password. Inr (map (\<lambda>b. b XOR 0xFF) data)),
     decryptVault = (\<lambda>encryptedData password.
       if password = ''wrong'' then Inl (NativeError ''Decryption failed'')
       else Inr (map (\<lambda>b. b XOR 0xFF) encryptedData)),
     getRandomValues = (\<lambda>t n. replicate n 42),
     export_wrapped_secret = (\<lambda>client sessionKey.
       Inr [0xAA, 0xBB, (case sessionKey of [] \<Rightarrow> 0 | x # _ \<Rightarrow> x)]),
     sign_data = (\<lambda>client data. Inr (rev data))
   \<rparr>"

text \<open>
  Two plaintext documents of the test scenarios, as the UTF-8 bytes of their JSON text:
  \<^verbatim>\<open>{"did":"did:p47h:mock-identity","wrappedSecret":"qrtw","salt":"KioqKioqKioqKioqKioqKg==","secrets":{},"createdAt":0}\<close>
  and the same with \<^verbatim>\<open>"secrets":{"api_key":"super_secret_value"}\<close>.
\<close>

definition mock_did :: string where
  "mock_did = ''did:p47h:mock-identity''"

definition doc_empty :: bytes where
  "doc_empty = [
      0x7B, 0x22, 0x64, 0x69, 0x64, 0x22, 0x3A, 0x22, 0x64, 0x69, 0x64, 0x3A,
      0x70, 0x34, 0x37, 0x68, 0x3A, 0x6D, 0x6F, 0x63, 0x6B, 0x2D, 0x69, 0x64,
      0x65, 0x6E, 0x74, 0x69, 0x74, 0x79, 0x22, 0x2C, 0x22, 0x77, 0x72, 0x61,
      0x70, 0x70, 0x65, 0x64, 0x53, 0x65, 0x63, 0x72, 0x65, 0x74, 0x22, 0x3A,
      0x22, 0x71, 0x72, 0x74, 0x77, 0x22, 0x2C, 0x22, 0x73, 0x61, 0x6C, 0x74,
      0x22, 0x3A, 0x22, 0x4B, 0x69, 0x6F, 0x71, 0x4B, 0x69, 0x6F, 0x71, 0x4B,
      0x69, 0x6F, 0x71, 0x4B, 0x69, 0x6F, 0x71, 0x4B, 0x69, 0x6F, 0x71, 0x4B,
      0x67, 0x3D, 0x3D, 0x22, 0x2C, 0x22, 0x73, 0x65, 0x63, 0x72, 0x65, 0x74,
      0x73, 0x22, 0x3A, 0x7B, 0x7D, 0x2C, 0x22, 0x63, 0x72, 0x65, 0x61, 0x74,
      0x65, 0x64, 0x41, 0x74, 0x22, 0x3A, 0x30, 0x7D]"

definition doc_one :: bytes where
  "doc_one = [
      0x7B, 0x22, 0x64, 0x69, 0x64, 0x22, 0x3A, 0x22, 0x64, 0x69, 0x64, 0x3A,
      0x70, 0x34, 0x37, 0x68, 0x3A, 0x6D, 0x6F, 0x63, 0x6B, 0x2D, 0x69, 0x64,
      0x65, 0x6E, 0x74, 0x69, 0x74, 0x79, 0x22, 0x2C, 0x22, 0x77, 0x72, 0x61,
      0x70, 0x70, 0x65, 0x64, 0x53, 0x65, 0x63, 0x72, 0x65, 0x74, 0x22, 0x3A,
      0x22, 0x71, 0x72, 0x74, 0x77, 0x22, 0x2C, 0x22, 0x73, 0x61, 0x6C, 0x74,
      0x22, 0x3A, 0x22, 0x4B, 0x69, 0x6F, 0x71, 0x4B, 0x69, 0x6F, 0x71, 0x4B,
      0x69, 0x6F, 0x71, 0x4B, 0x69, 0x6F, 0x71, 0x4B, 0x69, 0x6F, 0x71, 0x4B,
      0x67, 0x3D, 0x3D, 0x22, 0x2C, 0x22, 0x73, 0x65, 0x63, 0x72, 0x65, 0x74,
      0x73, 0x22, 0x3A, 0x7B, 0x22, 0x61, 0x70, 0x69, 0x5F, 0x6B, 0x65, 0x79,
      0x22, 0x3A, 0x22, 0x73, 0x75, 0x70, 0x65, 0x72, 0x5F, 0x73, 0x65, 0x63,
      0x72, 0x65, 0x74, 0x5F, 0x76, 0x61, 0x6C, 0x75, 0x65, 0x22, 0x7D, 0x2C,
      0x22, 0x63, 0x72, 0x65, 0x61, 0x74, 0x65, 0x64, 0x41, 0x74, 0x22, 0x3A,
      0x30, 0x7D]"

definition payload_empty :: VaultInternalData where
  "payload_empty = \<lparr>vid_did = mock_did, vid_wrappedSecret = ''qrtw'',
     vid_salt = ''KioqKioqKioqKioqKioqKg=='', vid_secrets = [], vid_createdAt = 0\<rparr>"

definition payload_one :: VaultInternalData where
  "payload_one = payload_empty\<lparr>vid_secrets := [(''api_key'', ''super_secret_value'')]\<rparr>"

text \<open>The two documents under the mock encryption, and the Base64 text of that.\<close>

definition sealed_empty :: bytes where
  "sealed_empty = map (\<lambda>b. b XOR 0xFF) doc_empty"

definition sealed_one :: bytes where
  "sealed_one = map (\<lambda>b. b XOR 0xFF) doc_one"

definition sealed_empty_b64 :: string where
  "sealed_empty_b64 =
     ''hN2blpvdxd2blpvFj8vIl8WSkJyU0pabmpGLlouG3dPdiI2ej4+am6yanI2ai93F3Y6Ni4jd092MnpOL3cXdtJaQjrSWkI60lpCOtJaQjrSWkI60mMLC3dPdjJqcjZqLjN3FhILT3ZyNmp6Lmpu+i93Fz4I=''"

definition sealed_one_b64 :: string where
  "sealed_one_b64 =
     ''hN2blpvdxd2blpvFj8vIl8WSkJyU0pabmpGLlouG3dPdiI2ej4+am6yanI2ai93F3Y6Ni4jd092MnpOL3cXdtJaQjrSWkI60lpCOtJaQjrSWkI60mMLC3dPdjJqcjZqLjN3FhN2ej5aglJqG3cXdjIqPmo2gjJqcjZqLoImek4qa3YLT3ZyNmp6Lmpu+i93Fz4I=''"

text \<open>
  A platform that answers as the browser does on the texts of the test scenarios, with a
  clock that reads 0. On any other input \<^verbatim>\<open>atob\<close> and \<^verbatim>\<open>JSON.parse\<close> throw, and
  \<^verbatim>\<open>btoa\<close> and \<^verbatim>\<open>JSON.stringify\<close> return the empty text; no scenario reaches these.
\<close>

definition stub_platform :: platform where
  "stub_platform = \<lparr>
     btoa = (\<lambda>s.
       if s = map (\<lambda>x. char_of (unat x)) sealed_empty then sealed_empty_b64
       else if s = map (\<lambda>x. char_of (unat x)) sealed_one then sealed_one_b64
       else if s = replicate 16 (CHR ''*'') then ''KioqKioqKioqKioqKioqKg==''
       else if s = map (\<lambda>x. char_of (unat x)) [0xAA, 0xBB, 0x70 :: 8 word] then ''qrtw''
       else []),
     atob = (\<lambda>s.
       if s = sealed_empty_b64 then Inr (map (\<lambda>x. char_of (unat x)) sealed_empty)
       else if s = sealed_one_b64 then Inr (map (\<lambda>x. char_of (unat x)) sealed_one)
       else if s = ''KioqKioqKioqKioqKioqKg=='' then Inr (replicate 16 (CHR ''*''))
       else if s = ''qrtw'' then Inr (map (\<lambda>x. char_of (unat x)) [0xAA, 0xBB, 0x70 :: 8 word])
       else Inl (NativeError ''InvalidCharacterError'')),
     json_stringify = (\<lambda>d.
       if d = payload_empty then doc_empty
       else if d = payload_one then doc_one
       else []),
     json_parse = (\<lambda>bs.
       if bs = doc_empty then Inr payload_empty
       else if bs = doc_one then Inr payload_one
       else Inl (NativeError ''SyntaxError'')),
     date_now = (\<lambda>t. 0)
   \<rparr>"

text \<open>
  The envelope that \<^verbatim>\<open>register('password123')\<close> persists with these doubles: the mock
  encryption ignores the password, so both ciphertexts are the same text.
\<close>

definition stored_blob :: EncryptedVaultBlob where
  "stored_blob = \<lparr>blob_version = 1, blob_did = mock_did,
     blob_salt = ''KioqKioqKioqKioqKioqKg=='',
     blob_wrappedData = sealed_empty_b64,
     blob_recoveryBlob = Some sealed_empty_b64,
     blob_updatedAt = 0\<rparr>"

text \<open>
  A facade after \<^verbatim>\<open>init()\<close> over an empty store; the same after
  \<^verbatim>\<open>register('password123')\<close>; and that one after \<^verbatim>\<open>lock()\<close>.
\<close>

definition fresh_world :: "((string \<times> EncryptedVaultBlob) list) world" where
  "fresh_world = (new_VaultFacade [])\<lparr>w_isInitialized := True\<rparr>"

definition mock_session_key :: bytes where
  "mock_session_key =
     [0x70, 0x61, 0x73, 0x73, 0x77, 0x6F, 0x72, 0x64, 0x31, 0x32, 0x33] @ replicate 20 0 @ [42]"

definition unlocked_world :: "((string \<times> EncryptedVaultBlob) list) world" where
  "unlocked_world = \<lparr>w_storage = [(mock_did, stored_blob)],
     w_session = Some \<lparr>sess_client = MockClient mock_did, sess_sessionKey = 0,
       sess_did = mock_did, sess_password = ''password123'', sess_secrets = []\<rparr>,
     w_isInitialized = True, w_isDisposed = False,
     w_heap = [mock_session_key], w_freed = [], w_tick = 7\<rparr>"

definition locked_world :: "((string \<times> EncryptedVaultBlob) list) world" where
  "locked_world = unlocked_world\<lparr>w_session := None, w_freed := [MockClient mock_did]\<rparr>"

text \<open>
  An unlocked facade whose envelope has gone from the store (removed by another
  instance that shares it).
\<close>

definition orphaned_world :: "((string \<times> EncryptedVaultBlob) list) world" where
  "orphaned_world = unlocked_world\<lparr>w_storage := []\<rparr>"

text \<open>
  A store whose envelope under the key \<^verbatim>\<open>did:p47h:other\<close> holds a payload sealed for
  another identifier.
\<close>

definition swapped_world :: "((string \<times> EncryptedVaultBlob) list) world" where
  "swapped_world =
     locked_world\<lparr>w_storage := [(''did:p47h:other'', stored_blob\<lparr>blob_did := ''did:p47h:other''\<rparr>)]\<rparr>"

text \<open>
  A core that refuses to unwrap the stored private key (the key bytes are not a wrapped
  secret of its own) and otherwise behaves as the mock.
\<close>

definition unwrap_failing_core :: P47hWasmModule where
  "unwrap_failing_core = \<lparr>
     wasm_new_P47hClient = createIdentity MockWasmAdapter,
     wasm_from_wrapped_secret = (\<lambda>wrapped sessionKey. Inl (NativeError ''Decryption failed'')),
     wasm_encrypt_vault = encryptVault MockWasmAdapter,
     wasm_decrypt_vault = decryptVault MockWasmAdapter,
     wasm_derive_session_key = deriveSessionKey MockWasmAdapter,
     wasm_export_wrapped_secret = export_wrapped_secret MockWasmAdapter,
     wasm_sign_data = sign_data MockWasmAdapter
   \<rparr>"

text \<open>
  A recovery without rotation, with the recovery code that \<^verbatim>\<open>register\<close> builds from the
  mock's random bytes.
\<close>

definition recovery_options :: RecoveryOptions where
  "recovery_options = \<lparr>opt_recoveryCode = ''RK-2A2A2A2A-2A2A2A2A-2A2A2A2A-2A2A2A2A'',
     opt_newPassword = ''new-password'', opt_did = None, opt_rotateRecoveryCode = None\<rparr>"

definition unwrap_failing_adapter :: ICryptoPort where
  "unwrap_failing_adapter = WasmCryptoAdapter (Inr unwrap_failing_core) (\<lambda>t n. replicate n 42)"

text \<open>
  The session of the session manager's unit test: a key of 32 bytes \<^verbatim>\<open>0x42\<close> in the buffer
  at address 0.
\<close>

definition keyed_world :: "unit world" where
  "keyed_world =
     SessionManager_establish (MockClient ''did:p47h:test'') 0 ''did:p47h:test'' ''password123''
       [(''key'', ''value'')] ((new_VaultFacade ())\<lparr>w_heap := [replicate 32 0x42]\<rparr>)"

section \<open>Auxiliary facts\<close>

subsection \<open>Encoding and the test doubles\<close>

lemma binString_roundtrip:
  "map (\<lambda>m. of_nat (of_char m)) (map (\<lambda>x. char_of (unat x)) bs) = (bs :: 8 word list)"
proof -
  have "of_nat (of_char (char_of (unat x) :: char)) = x" for x :: "8 word"
  proof -
    have "unat x < 256" using unsigned_less [of x] by simp
    then show ?thesis by (simp add: of_char_of)
  qed
  then show ?thesis by (simp add: map_idI)
qed

lemma binString_roundtrip_comp:
  "map ((\<lambda>m. of_nat (of_char m)) \<circ> (\<lambda>x. char_of (unat x))) bs = (bs :: 8 word list)"
  using binString_roundtrip [of bs] by simp

lemma xor_ff_involution_comp:
  "map ((\<lambda>b. b XOR 0xFF) \<circ> (\<lambda>b. b XOR 0xFF)) bs = (bs :: 8 word list)"
  by (induction bs) (simp_all add: xor.assoc)

lemma update_lookup: "map_of (AList.update k v al) k = Some v"
  by (simp add: update_conv')

lemma object_set_get:
  "k \<noteq> ''__proto__'' \<or> map_of obj k \<noteq> None \<Longrightarrow> object_get (object_set k v obj) k = OwnString v"
  by (auto simp add: object_get_def object_set_def update_lookup)

lemma object_set_proto:
  "map_of obj ''__proto__'' = None \<Longrightarrow> object_set ''__proto__'' v obj = obj"
  by (simp add: object_set_def)

lemma object_get_proto:
  "map_of obj ''__proto__'' = None \<Longrightarrow> object_get obj ''__proto__'' = PrototypeMember ''__proto__''"
  by (simp add: object_get_def Object_prototype_names_def)

subsection \<open>Guards\<close>

lemma ensureNotDisposed_disposed:
  "w_isDisposed \<sigma> \<Longrightarrow>
   ensureNotDisposed \<sigma> = Inl (VaultError ''VaultFacade has been disposed'' ''DISPOSED'')"
  by (simp add: ensureNotDisposed_def)

lemma ensureInitialized_disposed:
  "w_isDisposed \<sigma> \<Longrightarrow>
   ensureInitialized \<sigma> = Inl (VaultError ''VaultFacade has been disposed'' ''DISPOSED'')"
  by (simp add: ensureInitialized_def ensureNotDisposed_disposed)

lemma ensureAuthenticated_disposed:
  "w_isDisposed \<sigma> \<Longrightarrow>
   ensureAuthenticated \<sigma> = Inl (VaultError ''VaultFacade has been disposed'' ''DISPOSED'')"
  by (simp add: ensureAuthenticated_def ensureInitialized_disposed)

lemma ensureInitialized_uninit:
  "\<not> w_isDisposed \<sigma> \<Longrightarrow> \<not> w_isInitialized \<sigma> \<Longrightarrow>
   ensureInitialized \<sigma> =
     Inl (InitializationError ''VaultFacade not initialized. Call init() first.'' None)"
  by (simp add: ensureInitialized_def ensureNotDisposed_def)

lemma ensureAuthenticated_uninit:
  "\<not> w_isDisposed \<sigma> \<Longrightarrow> \<not> w_isInitialized \<sigma> \<Longrightarrow>
   ensureAuthenticated \<sigma> =
     Inl (InitializationError ''VaultFacade not initialized. Call init() first.'' None)"
  by (simp add: ensureAuthenticated_def ensureInitialized_uninit)

lemma ensureInitialized_ready:
  "\<not> w_isDisposed \<sigma> \<Longrightarrow> w_isInitialized \<sigma> \<Longrightarrow> ensureInitialized \<sigma> = Inr ()"
  by (simp add: ensureInitialized_def ensureNotDisposed_def)

lemma ensureAuthenticated_locked:
  "\<not> w_isDisposed \<sigma> \<Longrightarrow> w_isInitialized \<sigma> \<Longrightarrow> w_session \<sigma> = None \<Longrightarrow>
   ensureAuthenticated \<sigma> = Inl NotAuthenticatedError"
  by (simp add: ensureAuthenticated_def ensureInitialized_ready SessionManager_isAuthenticated_def)

text \<open>A guarded call whose guard throws \<open>e\<close> fails with \<open>e\<close> and changes nothing.\<close>

lemma guarded_fails_with:
  assumes "guarded c" "ensureNotDisposed \<sigma> = Inl e" "ensureInitialized \<sigma> = Inl e"
    "ensureAuthenticated \<sigma> = Inl e"
  shows "IVault_invoke P C S c \<sigma> = (Inl e, \<sigma>)"
  using assms
  by (cases c)
     (simp_all add: returning_def VaultFacade_init_def VaultFacade_register_def
        VaultFacade_login_def VaultFacade_recoverAccount_def VaultFacade_getDid_def
        VaultFacade_getStoredIdentities_def VaultFacade_sign_def VaultFacade_saveSecret_def
        VaultFacade_getSecret_def)

lemma guarded_disposed:
  "guarded c \<Longrightarrow> w_isDisposed \<sigma> \<Longrightarrow>
   IVault_invoke P C S c \<sigma> = (Inl (VaultError ''VaultFacade has been disposed'' ''DISPOSED''), \<sigma>)"
  by (rule guarded_fails_with)
     (simp_all add: ensureNotDisposed_disposed ensureInitialized_disposed
        ensureAuthenticated_disposed)

lemma requires_session_locked:
  assumes "requires_session c" "\<not> w_isDisposed \<sigma>" "w_isInitialized \<sigma>" "w_session \<sigma> = None"
  shows "IVault_invoke P C S c \<sigma> = (Inl NotAuthenticatedError, \<sigma>)"
  using assms
  by (cases c)
     (simp_all add: returning_def VaultFacade_getDid_def VaultFacade_sign_def
        VaultFacade_saveSecret_def VaultFacade_getSecret_def ensureAuthenticated_locked
        ensureInitialized_ready SecretManagementUseCase_saveSecret_def
        SecretManagementUseCase_getSecret_def SessionManager_isAuthenticated_def)

lemma guarded_uninitialized:
  assumes "guarded c" "c \<noteq> Init" "\<not> w_isDisposed \<sigma>" "\<not> w_isInitialized \<sigma>"
  shows "IVault_invoke P C S c \<sigma> =
    (Inl (InitializationError ''VaultFacade not initialized. Call init() first.'' None), \<sigma>)"
  using assms
  by (cases c)
     (simp_all add: returning_def VaultFacade_register_def
        VaultFacade_login_def VaultFacade_recoverAccount_def VaultFacade_getDid_def
        VaultFacade_getStoredIdentities_def VaultFacade_sign_def VaultFacade_saveSecret_def
        VaultFacade_getSecret_def ensureInitialized_uninit ensureAuthenticated_uninit)

lemma clear_disposed: "w_isDisposed (SessionManager_clear \<sigma>) = w_isDisposed \<sigma>"
  by (simp add: SessionManager_clear_def split: option.splits)

lemma dispose_disposed: "w_isDisposed (VaultFacade_dispose \<sigma>)"
  by (simp add: VaultFacade_dispose_def)

subsection \<open>Saving a secret\<close>

lemma setSecret_world:
  "w_session \<sigma> = Some sd \<Longrightarrow>
   snd (SessionManager_setSecret key val \<sigma>) =
     \<sigma>\<lparr>w_session := Some (sd\<lparr>sess_secrets := object_set key val (sess_secrets sd)\<rparr>)\<rparr>"
  by (simp add: SessionManager_setSecret_def)

text \<open>Whatever \<^verbatim>\<open>saveSecret\<close> returns, the cache holds the new value when it returns.\<close>

lemma saveSecret_cache:
  assumes "w_session \<sigma> = Some sd"
  shows "w_session (snd (SecretManagementUseCase_saveSecret P C S key val \<sigma>)) =
           Some (sd\<lparr>sess_secrets := object_set key val (sess_secrets sd)\<rparr>)
         \<and> w_isInitialized (snd (SecretManagementUseCase_saveSecret P C S key val \<sigma>))
             = w_isInitialized \<sigma>
         \<and> w_isDisposed (snd (SecretManagementUseCase_saveSecret P C S key val \<sigma>))
             = w_isDisposed \<sigma>"
  using assms
  by (simp add: SecretManagementUseCase_saveSecret_def setSecret_world Let_def tick_def
      SessionManager_getAllSecrets_def
      split: sum.splits option.splits)

lemma saveSecret_failed_store:
  assumes "SecretManagementUseCase_saveSecret P C S key val \<sigma> = (Inl e, \<sigma>')"
  shows "w_storage \<sigma>' = w_storage \<sigma>"
  using assms
  by (auto simp add: SecretManagementUseCase_saveSecret_def SessionManager_setSecret_def Let_def
      tick_def SessionManager_getAllSecrets_def
      split: sum.splits option.splits)

lemma deleteSecret_world:
  "w_session \<sigma> = Some sd \<Longrightarrow>
   snd (SessionManager_deleteSecret key \<sigma>) =
     \<sigma>\<lparr>w_session := Some (sd\<lparr>sess_secrets := AList.delete key (sess_secrets sd)\<rparr>)\<rparr>"
  by (simp add: SessionManager_deleteSecret_def)

text \<open>
  A successful \<^verbatim>\<open>saveSecret\<close> or \<^verbatim>\<open>deleteSecret\<close> ends with one \<^verbatim>\<open>storage.save\<close> of the
  envelope it read, with a new main ciphertext and time stamp.
\<close>

lemma saveSecret_written:
  assumes "SecretManagementUseCase_saveSecret P C S key val \<sigma> = (Inr (), \<sigma>')"
  shows "\<exists>sd old w t. w_session \<sigma> = Some sd
           \<and> st_get S (w_storage \<sigma>) (sess_did sd) = Inr (Some old)
           \<and> st_save S (w_storage \<sigma>) (sess_did sd)
                 (old\<lparr>blob_wrappedData := w, blob_updatedAt := t\<rparr>) = Inr (w_storage \<sigma>')"
  using assms
  by (auto simp add: SecretManagementUseCase_saveSecret_def SessionManager_setSecret_def Let_def
      tick_def SessionManager_getAllSecrets_def
      split: sum.splits option.splits) blast

lemma deleteSecret_written:
  assumes "SecretManagementUseCase_deleteSecret P C S key \<sigma> = (Inr (), \<sigma>')"
  shows "\<exists>sd old w t. w_session \<sigma> = Some sd
           \<and> st_get S (w_storage \<sigma>) (sess_did sd) = Inr (Some old)
           \<and> st_save S (w_storage \<sigma>) (sess_did sd)
                 (old\<lparr>blob_wrappedData := w, blob_updatedAt := t\<rparr>) = Inr (w_storage \<sigma>')"
  using assms
  by (auto simp add: SecretManagementUseCase_deleteSecret_def SessionManager_deleteSecret_def
      Let_def tick_def split: sum.splits option.splits) blast

lemma facade_saveSecret_cases:
  "VaultFacade_saveSecret P C S key val \<sigma> = SecretManagementUseCase_saveSecret P C S key val \<sigma>
   \<or> (\<exists>e. VaultFacade_saveSecret P C S key val \<sigma> = (Inl e, \<sigma>))"
  by (cases "ensureInitialized \<sigma>") (simp_all add: VaultFacade_saveSecret_def)

lemma deleteSecret_failed_store:
  assumes "SecretManagementUseCase_deleteSecret P C S key \<sigma> = (Inl e, \<sigma>')"
  shows "w_storage \<sigma>' = w_storage \<sigma>"
  using assms
  by (auto simp add: SecretManagementUseCase_deleteSecret_def SessionManager_deleteSecret_def
      Let_def tick_def split: sum.splits option.splits)

subsection \<open>Login and recovery\<close>

text \<open>A login that returns has established a session for the identity it returns.\<close>

lemma login_success_session:
  assumes "LoginUseCase_execute P C S password did \<sigma> = (Inr info, \<sigma>')"
  shows "\<exists>sd. w_session \<sigma>' = Some sd \<and> sess_did sd = info_did info
           \<and> sess_password sd = password"
    and "w_isDisposed \<sigma>' = w_isDisposed \<sigma>"
    and "w_isInitialized \<sigma>' = w_isInitialized \<sigma>"
    and "did = Some t \<Longrightarrow> t \<noteq> [] \<Longrightarrow> info_did info = t"
  using assms
  by (auto simp add: LoginUseCase_execute_def LoginUseCase_unlock_def LoginUseCase_resolve_def
      alloc_def SessionManager_establish_def SessionManager_clear_def Let_def
      split: sum.splits option.splits if_splits list.splits)

text \<open>The recover use case changes the store and draws on time and randomness only.\<close>

lemma recover_frame:
  assumes "RecoverAccountUseCase_execute P C S options \<sigma> = (r, \<sigma>')"
  shows "w_session \<sigma>' = w_session \<sigma> \<and> w_isDisposed \<sigma>' = w_isDisposed \<sigma>
    \<and> w_isInitialized \<sigma>' = w_isInitialized \<sigma> \<and> w_heap \<sigma>' = w_heap \<sigma>
    \<and> w_freed \<sigma>' = w_freed \<sigma>"
  using assms
  by (auto simp add: RecoverAccountUseCase_execute_def RecoverAccountUseCase_rewrap_def
      generateRecoveryCode_def tick_def Let_def
      split: sum.splits option.splits if_splits prod.splits)

subsection \<open>The test scenario\<close>

lemma binString_eq_iff:
  "map (\<lambda>x. char_of (unat x)) xs = map (\<lambda>x. char_of (unat x)) ys \<longleftrightarrow> xs = (ys :: 8 word list)"
proof
  assume "map (\<lambda>x. char_of (unat x)) xs = (map (\<lambda>x. char_of (unat x)) ys :: string)"
  then have "map (\<lambda>m. of_nat (of_char m)) (map (\<lambda>x. char_of (unat x)) xs)
      = (map (\<lambda>m. of_nat (of_char m)) (map (\<lambda>x. char_of (unat x)) ys) :: 8 word list)"
    by (rule arg_cong)
  then show "xs = ys" by (simp only: binString_roundtrip)
qed simp

lemma xor_ff_eq_iff:
  "map (\<lambda>b. b XOR 0xFF) xs = map (\<lambda>b. b XOR 0xFF) ys \<longleftrightarrow> xs = (ys :: 8 word list)"
proof
  assume "map (\<lambda>b. b XOR 0xFF) xs = map (\<lambda>b. b XOR 0xFF) ys"
  then have "map (\<lambda>b. b XOR 0xFF) (map (\<lambda>b. b XOR 0xFF) xs)
      = map (\<lambda>b. b XOR 0xFF) (map (\<lambda>b. b XOR 0xFF) ys)"
    by (rule arg_cong)
  then show "xs = ys" by (simp add: xor_ff_involution_comp)
qed simp

lemma docs_differ: "doc_one \<noteq> doc_empty"
  by (simp add: doc_one_def doc_empty_def)

lemma sealed_differ:
  "map (\<lambda>x. char_of (unat x)) sealed_one \<noteq> map (\<lambda>x. char_of (unat x)) sealed_empty"
  using docs_differ
  by (simp only: binString_eq_iff sealed_one_def sealed_empty_def xor_ff_eq_iff not_False_eq_True)

lemma stub_atob_sealed_empty: "fromBase64 stub_platform sealed_empty_b64 = Inr sealed_empty"
  by (simp add: fromBase64_def stub_platform_def binString_roundtrip_comp)

lemma stub_btoa_sealed_empty: "toBase64 stub_platform sealed_empty = sealed_empty_b64"
  by (simp add: toBase64_def stub_platform_def)

lemma stub_btoa_sealed_one: "toBase64 stub_platform sealed_one = sealed_one_b64"
  by (simp add: toBase64_def stub_platform_def sealed_differ)

lemma stub_atob_salt: "fromBase64 stub_platform (vid_salt payload_empty) = Inr (replicate 16 42)"
  by (simp add: fromBase64_def stub_platform_def payload_empty_def sealed_empty_b64_def
      sealed_one_b64_def)

lemma stub_atob_wrapped:
  "fromBase64 stub_platform (vid_wrappedSecret payload_empty) = Inr [0xAA, 0xBB, 0x70]"
  by (simp add: fromBase64_def stub_platform_def payload_empty_def sealed_empty_b64_def
      sealed_one_b64_def binString_roundtrip_comp)

lemma stub_parse_doc_empty: "json_parse stub_platform doc_empty = Inr payload_empty"
  by (simp add: stub_platform_def)

lemma stub_stringify:
  "json_stringify stub_platform (payload_empty\<lparr>vid_secrets := [], vid_createdAt := 0\<rparr>)
     = doc_empty"
  "json_stringify stub_platform
     (payload_empty\<lparr>vid_secrets := [(''api_key'', ''super_secret_value'')], vid_createdAt := 0\<rparr>)
     = doc_one"
  by (simp_all add: stub_platform_def payload_empty_def payload_one_def)

lemma mock_decrypt_sealed_empty:
  "password \<noteq> ''wrong'' \<Longrightarrow> decryptVault MockWasmAdapter sealed_empty password = Inr doc_empty"
  by (simp add: MockWasmAdapter_def sealed_empty_def xor_ff_involution_comp)

lemma mock_encrypt:
  "encryptVault MockWasmAdapter t doc_empty password = Inr sealed_empty"
  "encryptVault MockWasmAdapter t doc_one password = Inr sealed_one"
  by (simp_all add: MockWasmAdapter_def sealed_empty_def sealed_one_def)

lemma mock_derive:
  "deriveSessionKey MockWasmAdapter ''password123'' (replicate 16 42) = Inr mock_session_key"
  by code_simp

lemma MockStorage_read_your_writes: "read_your_writes MockStorage"
  by (simp add: read_your_writes_def MockStorage_def update_conv')

lemma locked_world_flags:
  "w_isInitialized locked_world" "\<not> w_isDisposed locked_world" "w_session locked_world = None"
  by (simp_all add: locked_world_def unlocked_world_def new_VaultFacade_def)

lemma locked_world_resolve:
  "LoginUseCase_resolve MockStorage None (w_storage locked_world) = Inr mock_did"
  by (simp add: LoginUseCase_resolve_def MockStorage_def locked_world_def unlocked_world_def new_VaultFacade_def)

lemma locked_world_get:
  "st_get MockStorage (w_storage locked_world) mock_did = Inr (Some stored_blob)"
  by (simp add: MockStorage_def locked_world_def unlocked_world_def new_VaultFacade_def)

lemma stored_blob_main:
  "fromBase64 stub_platform (blob_wrappedData stored_blob) = Inr sealed_empty"
  by (simp add: stored_blob_def stub_atob_sealed_empty)

lemma stored_blob_recovery:
  "blob_recoveryBlob stored_blob = Some sealed_empty_b64" "sealed_empty_b64 \<noteq> []"
  by (simp_all add: stored_blob_def sealed_empty_b64_def)

lemma unlocked_world_session:
  "w_session unlocked_world = Some \<lparr>sess_client = MockClient mock_did, sess_sessionKey = 0,
       sess_did = mock_did, sess_password = ''password123'', sess_secrets = []\<rparr>"
  by (simp add: unlocked_world_def)

lemma unlocked_world_get:
  "st_get MockStorage (w_storage unlocked_world) mock_did = Inr (Some stored_blob)"
  by (simp add: MockStorage_def locked_world_def unlocked_world_def new_VaultFacade_def)

lemma recovery_new_password: "opt_newPassword recovery_options = ''new-password''"
  by (simp add: recovery_options_def)

lemma failing_adapter_facts:
  "decryptVault unwrap_failing_adapter sealed_empty ''password123'' = Inr doc_empty"
  "deriveSessionKey unwrap_failing_adapter ''password123'' (replicate 16 42)
     = Inr mock_session_key"
  "restoreIdentity unwrap_failing_adapter [0xAA, 0xBB, 0x70] mock_session_key
     = Inl (CryptoError ''Failed to restore identity from wrapped secret''
              (Some (NativeError ''Decryption failed'')))"
  by (simp_all add: unwrap_failing_adapter_def WasmCryptoAdapter_def getModule_def
      catch_CryptoError_def unwrap_failing_core_def mock_decrypt_sealed_empty mock_derive)

text \<open>\<^verbatim>\<open>saveSecret('api_key', 'super_secret_value')\<close> on the unlocked facade.\<close>

lemma save_run:
  "SecretManagementUseCase_saveSecret stub_platform MockWasmAdapter MockStorage ''api_key''
     ''super_secret_value'' unlocked_world
   = (Inr (), unlocked_world\<lparr>
        w_session := Some \<lparr>sess_client = MockClient mock_did, sess_sessionKey = 0,
          sess_did = mock_did, sess_password = ''password123'',
          sess_secrets = [(''api_key'', ''super_secret_value'')]\<rparr>,
        w_tick := 10,
        w_storage := [(mock_did, stored_blob\<lparr>blob_wrappedData := sealed_one_b64\<rparr>)]\<rparr>)"
proof -
  have u: "date_now stub_platform t = 0" for t by (simp add: stub_platform_def)
  have g: "st_get MockStorage [(mock_did, stored_blob)] mock_did = Inr (Some stored_blob)"
    by (simp add: MockStorage_def)
  have sv: "st_save MockStorage [(mock_did, stored_blob)] mock_did b = Inr [(mock_did, b)]" for b
    by (simp add: MockStorage_def)
  have z: "blob_updatedAt stored_blob = 0" by (simp add: stored_blob_def)
  show ?thesis
    using z
    by (simp add: SecretManagementUseCase_saveSecret_def locked_world_def unlocked_world_def
        new_VaultFacade_def SessionManager_setSecret_def SessionManager_getAllSecrets_def
        g sv stored_blob_main mock_decrypt_sealed_empty stub_parse_doc_empty u tick_def
        stub_stringify mock_encrypt stub_btoa_sealed_one object_set_def)
qed

text \<open>The recovery on the locked facade, and the login that the facade makes after it.\<close>

lemma recover_run:
  "RecoverAccountUseCase_execute stub_platform MockWasmAdapter MockStorage recovery_options
     locked_world
   = (Inr \<lparr>rr_did = mock_did, rr_newRecoveryCode = None\<rparr>, locked_world\<lparr>w_tick := 9\<rparr>)"
proof -
  have res: "RecoverAccountUseCase_resolve MockStorage None (w_storage locked_world) = Inr mock_did"
    by (simp add: RecoverAccountUseCase_resolve_def MockStorage_def locked_world_def unlocked_world_def
        new_VaultFacade_def)
  have dec: "decryptVault MockWasmAdapter sealed_empty ''RK-2A2A2A2A-2A2A2A2A-2A2A2A2A-2A2A2A2A''
      = Inr doc_empty"
    by (simp add: mock_decrypt_sealed_empty)
  have same: "stored_blob\<lparr>blob_wrappedData := sealed_empty_b64,
      blob_recoveryBlob := Some sealed_empty_b64, blob_updatedAt := 0\<rparr> = stored_blob"
    by (simp add: stored_blob_def)
  have sv: "st_save MockStorage (w_storage locked_world) mock_did stored_blob
      = Inr (w_storage locked_world)"
    by (simp add: MockStorage_def locked_world_def unlocked_world_def new_VaultFacade_def)
  have u: "date_now stub_platform t = 0" for t by (simp add: stub_platform_def)
  have t0: "w_tick locked_world = 7" by (simp add: locked_world_def unlocked_world_def new_VaultFacade_def)
  have two: "Suc (Suc 7) = 9" by simp
  show ?thesis
    using res locked_world_get stored_blob_recovery dec stub_parse_doc_empty sv
    by (simp add: RecoverAccountUseCase_execute_def RecoverAccountUseCase_rewrap_def
        recovery_options_def stub_atob_sealed_empty mock_encrypt stub_btoa_sealed_empty
        tick_def u same t0 two)
qed

lemma login_after_recover:
  "fst (LoginUseCase_execute stub_platform MockWasmAdapter MockStorage ''new-password''
          (Some mock_did) (locked_world\<lparr>w_tick := 9\<rparr>))
     = Inr \<lparr>info_did = mock_did, info_publicKey = [1, 2, 3]\<rparr>"
proof -
  have res: "LoginUseCase_resolve MockStorage (Some mock_did) s = Inr mock_did" for s
    by (simp add: LoginUseCase_resolve_def mock_did_def)
  have g: "st_get MockStorage (w_storage (locked_world\<lparr>w_tick := 9\<rparr>)) mock_did
      = Inr (Some stored_blob)"
    using locked_world_get by simp
  have dec: "decryptVault MockWasmAdapter sealed_empty ''new-password'' = Inr doc_empty"
    by (simp add: mock_decrypt_sealed_empty)
  have m: "vid_did payload_empty = mock_did" "vid_secrets payload_empty = []"
    by (simp_all add: payload_empty_def)
  have "\<exists>k. deriveSessionKey MockWasmAdapter ''new-password'' (replicate 16 42) = Inr k"
    by (simp add: MockWasmAdapter_def)
  then obtain k where
    k: "deriveSessionKey MockWasmAdapter ''new-password'' (replicate 16 42) = Inr k"
    by blast
  have rest: "restoreIdentity MockWasmAdapter w x = Inr (MockClient mock_did)" for w x
    by (simp add: MockWasmAdapter_def mock_did_def)
  show ?thesis
    using g dec m k
    by (simp add: LoginUseCase_execute_def LoginUseCase_unlock_def res stored_blob_main
        stub_parse_doc_empty stub_atob_salt stub_atob_wrapped alloc_def rest MockClient_def)
qed

lemma recoverAccount_run:
  "\<exists>\<sigma>'. VaultFacade_recoverAccount stub_platform MockWasmAdapter MockStorage recovery_options
           locked_world = (Inr \<lparr>rr_did = mock_did, rr_newRecoveryCode = None\<rparr>, \<sigma>')
        \<and> LoginUseCase_execute stub_platform MockWasmAdapter MockStorage ''new-password''
             (Some mock_did) (locked_world\<lparr>w_tick := 9\<rparr>)
           = (Inr \<lparr>info_did = mock_did, info_publicKey = [1, 2, 3]\<rparr>, \<sigma>')"
proof -
  obtain \<sigma>' where lg: "LoginUseCase_execute stub_platform MockWasmAdapter MockStorage
      ''new-password'' (Some mock_did) (locked_world\<lparr>w_tick := 9\<rparr>)
      = (Inr \<lparr>info_did = mock_did, info_publicKey = [1, 2, 3]\<rparr>, \<sigma>')"
    using login_after_recover
    by (cases "LoginUseCase_execute stub_platform MockWasmAdapter MockStorage
      ''new-password'' (Some mock_did) (locked_world\<lparr>w_tick := 9\<rparr>)") simp
  have ready: "ensureInitialized locked_world = Inr ()"
    "ensureInitialized (locked_world\<lparr>w_tick := 9\<rparr>) = Inr ()"
    by (simp_all add: ensureInitialized_ready locked_world_flags)
  have "VaultFacade_recoverAccount stub_platform MockWasmAdapter MockStorage recovery_options
      locked_world = (Inr \<lparr>rr_did = mock_did, rr_newRecoveryCode = None\<rparr>, \<sigma>')"
    using lg
    by (simp add: VaultFacade_recoverAccount_def ready recover_run VaultFacade_login_def
        recovery_new_password)
  with lg show ?thesis by blast
qed

subsection \<open>The worlds of the test scenario are states of the code\<close>

text \<open>
  With the test doubles, \<^verbatim>\<open>init()\<close> on a new facade over an empty store gives \<open>fresh_world\<close>,
  \<^verbatim>\<open>register('password123')\<close> then gives \<open>unlocked_world\<close> (and persists \<open>stored_blob\<close>), and
  \<^verbatim>\<open>lock()\<close> then gives \<open>locked_world\<close>.
\<close>

lemma init_run: "VaultFacade_init MockWasmAdapter (new_VaultFacade []) = (Inr (), fresh_world)"
  by (simp add: VaultFacade_init_def ensureNotDisposed_def new_VaultFacade_def fresh_world_def
      MockWasmAdapter_def)

lemma lock_run: "VaultFacade_lock unlocked_world = locked_world"
  by (simp add: VaultFacade_lock_def SessionManager_clear_def unlocked_world_def locked_world_def)

lemma mock_recovery_code:
  "RECOVERY_CODE_PREFIX @ ''-'' @ take 8 (concat (map byte_hex (replicate 16 42))) @ ''-''
     @ take 8 (drop 8 (concat (map byte_hex (replicate 16 42)))) @ ''-''
     @ take 8 (drop 16 (concat (map byte_hex (replicate 16 42)))) @ ''-''
     @ take 8 (drop 24 (concat (map byte_hex (replicate 16 42))))
   = ''RK-2A2A2A2A-2A2A2A2A-2A2A2A2A-2A2A2A2A''"
  by code_simp

lemma mock_random: "getRandomValues MockWasmAdapter t n = replicate n 42"
  by (simp add: MockWasmAdapter_def)

lemma mock_generate:
  "generateRecoveryCode MockWasmAdapter \<sigma> = (''RK-2A2A2A2A-2A2A2A2A-2A2A2A2A-2A2A2A2A'', tick \<sigma>)"
  unfolding generateRecoveryCode_def Let_def RECOVERY_CODE_BYTES_def
  by (simp only: mock_random mock_recovery_code)

lemma lengths: "length sealed_empty = 116" "length sealed_one = 146"
  by (simp_all add: sealed_empty_def sealed_one_def doc_empty_def doc_one_def)

lemma salt_not_sealed:
  "replicate 16 (CHR ''*'') \<noteq> map (\<lambda>x. char_of (unat x)) sealed_empty"
  "replicate 16 (CHR ''*'') \<noteq> map (\<lambda>x. char_of (unat x)) sealed_one"
proof -
  have "length (replicate 16 (CHR ''*'')) \<noteq> length (map (\<lambda>x. char_of (unat x)) sealed_empty)"
    by (simp add: lengths)
  then show "replicate 16 (CHR ''*'') \<noteq> map (\<lambda>x. char_of (unat x)) sealed_empty" by metis
  have "length (replicate 16 (CHR ''*'')) \<noteq> length (map (\<lambda>x. char_of (unat x)) sealed_one)"
    by (simp add: lengths)
  then show "replicate 16 (CHR ''*'') \<noteq> map (\<lambda>x. char_of (unat x)) sealed_one" by metis
qed

lemma wrapped_not_sealed:
  "map (\<lambda>x. char_of (unat x)) [0xAA, 0xBB, 0x70 :: 8 word] \<noteq> map (\<lambda>x. char_of (unat x)) sealed_empty"
  "map (\<lambda>x. char_of (unat x)) [0xAA, 0xBB, 0x70 :: 8 word] \<noteq> map (\<lambda>x. char_of (unat x)) sealed_one"
  "map (\<lambda>x. char_of (unat x)) [0xAA, 0xBB, 0x70 :: 8 word] \<noteq> replicate 16 (CHR ''*'')"
proof -
  have "length (map (\<lambda>x. char_of (unat x)) [0xAA, 0xBB, 0x70 :: 8 word])
      \<noteq> length (map (\<lambda>x. char_of (unat x)) sealed_empty)"
    by (simp add: lengths)
  then show "map (\<lambda>x. char_of (unat x)) [0xAA, 0xBB, 0x70 :: 8 word]
      \<noteq> map (\<lambda>x. char_of (unat x)) sealed_empty" by metis
  have "length (map (\<lambda>x. char_of (unat x)) [0xAA, 0xBB, 0x70 :: 8 word])
      \<noteq> length (map (\<lambda>x. char_of (unat x)) sealed_one)"
    by (simp add: lengths)
  then show "map (\<lambda>x. char_of (unat x)) [0xAA, 0xBB, 0x70 :: 8 word]
      \<noteq> map (\<lambda>x. char_of (unat x)) sealed_one" by metis
  have "length (map (\<lambda>x. char_of (unat x)) [0xAA, 0xBB, 0x70 :: 8 word])
      \<noteq> length (replicate 16 (CHR ''*''))"
    by simp
  then show "map (\<lambda>x. char_of (unat x)) [0xAA, 0xBB, 0x70 :: 8 word] \<noteq> replicate 16 (CHR ''*'')"
    by metis
qed

lemma stub_btoa_salt: "toBase64 stub_platform (replicate 16 42) = ''KioqKioqKioqKioqKioqKg==''"
proof -
  have "map (\<lambda>x. char_of (unat x)) (replicate 16 (42 :: 8 word)) = replicate 16 (CHR ''*'')"
    by code_simp
  then show ?thesis
    using salt_not_sealed by (simp add: toBase64_def stub_platform_def)
qed

lemma stub_btoa_wrapped: "toBase64 stub_platform [0xAA, 0xBB, 0x70] = ''qrtw''"
  using wrapped_not_sealed
  by (simp only: toBase64_def stub_platform_def platform.simps if_False if_True simp_thms)

lemma mock_export:
  "export_wrapped_secret MockWasmAdapter c mock_session_key = Inr [0xAA, 0xBB, 0x70]"
  by (simp add: MockWasmAdapter_def mock_session_key_def)

lemma register_run:
  "VaultFacade_register stub_platform MockWasmAdapter MockStorage ''password123'' fresh_world
   = (Inr \<lparr>reg_did = mock_did, reg_recoveryCode = ''RK-2A2A2A2A-2A2A2A2A-2A2A2A2A-2A2A2A2A''\<rparr>,
      unlocked_world)"
proof -
  have ready: "ensureInitialized fresh_world = Inr ()"
    by (simp add: ensureInitialized_ready fresh_world_def new_VaultFacade_def)
  have c: "createIdentity MockWasmAdapter t = Inr (MockClient mock_did)" for t
    by (simp add: MockWasmAdapter_def mock_did_def)
  have rnd: "getRandomValues MockWasmAdapter t n = replicate n 42" for t n
    by (simp add: MockWasmAdapter_def)
  have u: "date_now stub_platform t = 0" for t by (simp add: stub_platform_def)
  have p: "\<lparr>vid_did = mock_did, vid_wrappedSecret = ''qrtw'',
      vid_salt = ''KioqKioqKioqKioqKioqKg=='', vid_secrets = [], vid_createdAt = 0\<rparr> = payload_empty"
    by (simp add: payload_empty_def)
  have js: "json_stringify stub_platform payload_empty = doc_empty"
    by (simp add: stub_platform_def)
  have sv: "st_save MockStorage [] k b = Inr [(k, b)]" for k b
    by (simp add: MockStorage_def)
  have b: "\<lparr>blob_version = Suc 0, blob_did = mock_did, blob_salt = ''KioqKioqKioqKioqKioqKg=='',
      blob_wrappedData = sealed_empty_b64, blob_recoveryBlob = Some sealed_empty_b64,
      blob_updatedAt = 0\<rparr> = stored_blob"
    by (simp add: stored_blob_def)
  have uc: "RegisterIdentityUseCase_execute stub_platform MockWasmAdapter MockStorage
      ''password123'' fresh_world
   = (Inr \<lparr>reg_did = mock_did, reg_recoveryCode = ''RK-2A2A2A2A-2A2A2A2A-2A2A2A2A-2A2A2A2A''\<rparr>,
      unlocked_world)"
    by (simp add: RegisterIdentityUseCase_execute_def c rnd
        fresh_world_def new_VaultFacade_def tick_def mock_derive alloc_def mock_export
        stub_btoa_wrapped stub_btoa_salt u p js mock_encrypt mock_generate Let_def
        stub_btoa_sealed_empty sv b MockClient_def
        SessionManager_establish_def SessionManager_clear_def unlocked_world_def)
  show ?thesis
    by (simp add: VaultFacade_register_def ready uc)
qed

lemma orphaned_world_run:
  "st_remove MockStorage (w_storage unlocked_world) mock_did = Inr (w_storage orphaned_world)"
  by (simp add: MockStorage_def unlocked_world_def orphaned_world_def)

section \<open>C1: the session after a recovery\<close>

text \<open>
  C1 as stated: a successful recover call establishes no session, so that a
  recovery made while locked leaves the engine locked. It fails on the code: the facade
  logs in with the new password before \<^verbatim>\<open>recoverAccount\<close> returns. On the locked facade of
  the test scenario the recovery succeeds and \<^verbatim>\<open>isAuthenticated()\<close> is then true. (The
  older \<^verbatim>\<open>VaultService.recoverAccount\<close> ends with the same login.)
\<close>

theorem recover_while_locked_unlocks:
  "\<not> VaultFacade_isAuthenticated locked_world
   \<and> fst (VaultFacade_recoverAccount stub_platform MockWasmAdapter MockStorage recovery_options
            locked_world) = Inr \<lparr>rr_did = mock_did, rr_newRecoveryCode = None\<rparr>
   \<and> VaultFacade_isAuthenticated
        (snd (VaultFacade_recoverAccount stub_platform MockWasmAdapter MockStorage recovery_options
                locked_world))"
proof -
  from recoverAccount_run obtain \<sigma>' where
    run: "VaultFacade_recoverAccount stub_platform MockWasmAdapter MockStorage recovery_options
      locked_world = (Inr \<lparr>rr_did = mock_did, rr_newRecoveryCode = None\<rparr>, \<sigma>')"
    and lg: "LoginUseCase_execute stub_platform MockWasmAdapter MockStorage ''new-password''
             (Some mock_did) (locked_world\<lparr>w_tick := 9\<rparr>)
           = (Inr \<lparr>info_did = mock_did, info_publicKey = [1, 2, 3]\<rparr>, \<sigma>')"
    by blast
  from login_success_session(1,2) [OF lg] have "w_session \<sigma>' \<noteq> None" "\<not> w_isDisposed \<sigma>'"
    using locked_world_flags by auto
  then show ?thesis
    using run locked_world_flags
    by (simp add: VaultFacade_isAuthenticated_def SessionManager_isAuthenticated_def)
qed

text \<open>
  C1, amended: every successful \<^verbatim>\<open>recoverAccount\<close> call on the facade ends with a session
  established by a login with the new password: when it returns, \<^verbatim>\<open>isAuthenticated()\<close> is
  true, the session caches the new password and, for a non-empty returned identifier,
  \<^verbatim>\<open>getDid()\<close> returns the recovered identifier. The recover use case by itself leaves the
  session as it was.
\<close>

theorem recover_establishes_session:
  assumes "VaultFacade_recoverAccount P C S options \<sigma> = (Inr result, \<sigma>')"
  shows "VaultFacade_isAuthenticated \<sigma>'
    \<and> SessionManager_getPassword \<sigma>' = Inr (opt_newPassword options)
    \<and> (rr_did result \<noteq> [] \<longrightarrow> VaultFacade_getDid \<sigma>' = Inr (rr_did result))
    \<and> w_session (snd (RecoverAccountUseCase_execute P C S options \<sigma>)) = w_session \<sigma>"
proof -
  have init: "ensureInitialized \<sigma> = Inr ()"
    using assms by (cases "ensureInitialized \<sigma>") (simp_all add: VaultFacade_recoverAccount_def)
  then have flags: "w_isInitialized \<sigma>" "\<not> w_isDisposed \<sigma>"
    by (auto simp add: ensureInitialized_def ensureNotDisposed_def split: if_splits)
  obtain r \<sigma>1 where uc: "RecoverAccountUseCase_execute P C S options \<sigma> = (r, \<sigma>1)"
    by (cases "RecoverAccountUseCase_execute P C S options \<sigma>")
  note frame = recover_frame [OF uc]
  from assms init uc obtain info where
    r: "r = Inr result" and
    lg: "VaultFacade_login P C S (opt_newPassword options) (Some (rr_did result)) \<sigma>1
           = (Inr info, \<sigma>')"
    by (auto simp add: VaultFacade_recoverAccount_def split: sum.splits prod.splits)
  have ready: "ensureInitialized \<sigma>1 = Inr ()"
    using frame flags by (simp add: ensureInitialized_ready)
  have lu: "LoginUseCase_execute P C S (opt_newPassword options) (Some (rr_did result)) \<sigma>1
      = (Inr info, \<sigma>')"
    using lg ready by (simp add: VaultFacade_login_def)
  from login_success_session(1) [OF lu] obtain sd where
    sd: "w_session \<sigma>' = Some sd" "sess_did sd = info_did info"
        "sess_password sd = opt_newPassword options"
    by blast
  have nd: "\<not> w_isDisposed \<sigma>'"
    using login_success_session(2) [OF lu] frame flags by simp
  have ini: "w_isInitialized \<sigma>'"
    using login_success_session(3) [OF lu] frame flags by simp
  have did: "info_did info = rr_did result" if "rr_did result \<noteq> []"
    using login_success_session(4) [OF lu refl that] .
  show ?thesis
    using sd nd ini did frame uc
    by (simp add: VaultFacade_isAuthenticated_def SessionManager_isAuthenticated_def
        SessionManager_getPassword_def VaultFacade_getDid_def ensureAuthenticated_def
        ensureInitialized_ready SessionManager_getDid_def)
qed

theorem recover_establishes_session_witness:
  "fst (VaultFacade_recoverAccount stub_platform MockWasmAdapter MockStorage recovery_options
          locked_world) = Inr \<lparr>rr_did = mock_did, rr_newRecoveryCode = None\<rparr>
   \<and> VaultFacade_getDid
        (snd (VaultFacade_recoverAccount stub_platform MockWasmAdapter MockStorage recovery_options
                locked_world)) = Inr mock_did
   \<and> SessionManager_getPassword
        (snd (VaultFacade_recoverAccount stub_platform MockWasmAdapter MockStorage recovery_options
                locked_world)) = Inr ''new-password''"
proof -
  from recoverAccount_run obtain \<sigma>' where
    run: "VaultFacade_recoverAccount stub_platform MockWasmAdapter MockStorage recovery_options
      locked_world = (Inr \<lparr>rr_did = mock_did, rr_newRecoveryCode = None\<rparr>, \<sigma>')"
    by blast
  have ne: "rr_did \<lparr>rr_did = mock_did, rr_newRecoveryCode = None\<rparr> \<noteq> []"
    by (simp add: mock_did_def)
  show ?thesis
    using recover_establishes_session [OF run] run ne
    by (simp add: recovery_new_password)
qed

section \<open>C2: a main ciphertext that does not open\<close>

text \<open>
  C2: when the main ciphertext of the stored envelope does not open with the supplied
  password (its Base64 text does not decode, or \<^verbatim>\<open>decryptVault\<close> throws, whatever it throws),
  \<^verbatim>\<open>login\<close> fails with the one \<^verbatim>\<open>AuthenticationError\<close> below and changes nothing. The error
  is an authentication failure, not \<^verbatim>\<open>CORRUPT_DATA\<close>, and neither it nor the state depends
  on the cause, so a wrong password and a tampered ciphertext cannot be told apart.
\<close>

theorem login_decrypt_failure:
  assumes "w_isInitialized \<sigma>" "\<not> w_isDisposed \<sigma>"
    and "LoginUseCase_resolve S did (w_storage \<sigma>) = Inr targetDid"
    and "st_get S (w_storage \<sigma>) targetDid = Inr (Some storedBlob)"
    and "fromBase64 P (blob_wrappedData storedBlob) = Inl cause
         \<or> (\<exists>ct. fromBase64 P (blob_wrappedData storedBlob) = Inr ct
                \<and> decryptVault C ct password = Inl cause)"
  shows "VaultFacade_login P C S password did \<sigma>
           = (Inl (AuthenticationError ''Invalid password or corrupted vault''), \<sigma>)
    \<and> is_AuthenticationFailed (AuthenticationError ''Invalid password or corrupted vault'')
    \<and> \<not> is_CorruptData (AuthenticationError ''Invalid password or corrupted vault'')"
  using assms
  by (auto simp add: VaultFacade_login_def ensureInitialized_ready LoginUseCase_execute_def
      LoginUseCase_unlock_def is_AuthenticationFailed_def is_CorruptData_def
      AuthenticationError_def)

theorem login_decrypt_failure_witness:
  "LoginUseCase_resolve MockStorage None (w_storage locked_world) = Inr mock_did
   \<and> st_get MockStorage (w_storage locked_world) mock_did = Inr (Some stored_blob)
   \<and> fromBase64 stub_platform (blob_wrappedData stored_blob) = Inr sealed_empty
   \<and> decryptVault MockWasmAdapter sealed_empty ''wrong'' = Inl (NativeError ''Decryption failed'')
   \<and> VaultFacade_login stub_platform MockWasmAdapter MockStorage ''wrong'' None locked_world
       = (Inl (AuthenticationError ''Invalid password or corrupted vault''), locked_world)"
proof -
  have x: "decryptVault MockWasmAdapter sealed_empty ''wrong''
      = Inl (NativeError ''Decryption failed'')"
    by (simp add: MockWasmAdapter_def)
  have c: "fromBase64 stub_platform (blob_wrappedData stored_blob)
        = Inl (NativeError ''Decryption failed'')
      \<or> (\<exists>ct. fromBase64 stub_platform (blob_wrappedData stored_blob) = Inr ct
             \<and> decryptVault MockWasmAdapter ct ''wrong'' = Inl (NativeError ''Decryption failed''))"
    using stored_blob_main x by simp
  show ?thesis
    using login_decrypt_failure [OF locked_world_flags(1,2) locked_world_resolve
        locked_world_get c]
      locked_world_resolve locked_world_get stored_blob_main x
    by simp
qed

section \<open>C3: a payload sealed for another identifier\<close>

text \<open>
  C3: when the main ciphertext opens and parses, and the identifier inside the payload is
  not the key under which the envelope was fetched, \<^verbatim>\<open>login\<close> fails with the
  \<^verbatim>\<open>INTEGRITY_ERROR\<close> below, which is not an authentication failure, and changes nothing.
\<close>

theorem login_identifier_mismatch:
  assumes "w_isInitialized \<sigma>" "\<not> w_isDisposed \<sigma>"
    and "LoginUseCase_resolve S did (w_storage \<sigma>) = Inr targetDid"
    and "st_get S (w_storage \<sigma>) targetDid = Inr (Some storedBlob)"
    and "fromBase64 P (blob_wrappedData storedBlob) = Inr ct"
    and "decryptVault C ct password = Inr decryptedBytes"
    and "json_parse P decryptedBytes = Inr internalData"
    and "vid_did internalData \<noteq> targetDid"
  shows "VaultFacade_login P C S password did \<sigma>
           = (Inl (VaultError ''Integrity error: DID mismatch inside vault'' ''INTEGRITY_ERROR''),
              \<sigma>)
    \<and> is_IntegrityError
         (VaultError ''Integrity error: DID mismatch inside vault'' ''INTEGRITY_ERROR'')
    \<and> \<not> is_AuthenticationFailed
          (VaultError ''Integrity error: DID mismatch inside vault'' ''INTEGRITY_ERROR'')"
  using assms
  by (simp add: VaultFacade_login_def ensureInitialized_ready LoginUseCase_execute_def
      LoginUseCase_unlock_def is_AuthenticationFailed_def is_IntegrityError_def
      VaultError_def)

theorem login_identifier_mismatch_witness:
  "st_get MockStorage (w_storage swapped_world) ''did:p47h:other''
      = Inr (Some (stored_blob\<lparr>blob_did := ''did:p47h:other''\<rparr>))
   \<and> json_parse stub_platform doc_empty = Inr payload_empty
   \<and> vid_did payload_empty \<noteq> ''did:p47h:other''
   \<and> VaultFacade_login stub_platform MockWasmAdapter MockStorage ''password123''
        (Some ''did:p47h:other'') swapped_world
       = (Inl (VaultError ''Integrity error: DID mismatch inside vault'' ''INTEGRITY_ERROR''),
          swapped_world)"
proof -
  have i: "w_isInitialized swapped_world" and d: "\<not> w_isDisposed swapped_world"
    by (simp_all add: swapped_world_def locked_world_def unlocked_world_def new_VaultFacade_def)
  have r: "LoginUseCase_resolve MockStorage (Some ''did:p47h:other'') (w_storage swapped_world)
      = Inr ''did:p47h:other''"
    by (simp add: LoginUseCase_resolve_def)
  have g: "st_get MockStorage (w_storage swapped_world) ''did:p47h:other''
      = Inr (Some (stored_blob\<lparr>blob_did := ''did:p47h:other''\<rparr>))"
    by (simp add: MockStorage_def swapped_world_def)
  have b: "fromBase64 stub_platform
        (blob_wrappedData (stored_blob\<lparr>blob_did := ''did:p47h:other''\<rparr>)) = Inr sealed_empty"
    by (simp add: stored_blob_def stub_atob_sealed_empty)
  have x: "decryptVault MockWasmAdapter sealed_empty ''password123'' = Inr doc_empty"
    by (simp add: mock_decrypt_sealed_empty)
  have n: "vid_did payload_empty \<noteq> ''did:p47h:other''"
    by (simp add: payload_empty_def mock_did_def)
  show ?thesis
    using login_identifier_mismatch [OF i d r g b x stub_parse_doc_empty n]
      g n stub_parse_doc_empty
    by simp
qed

section \<open>C4: a private key that does not unwrap\<close>

text \<open>
  C4 as stated: when the main ciphertext opens, the payload parses and its
  identifier matches, and restoring the identity from the wrapped private key fails, then
  \<^verbatim>\<open>login\<close> fails with AuthenticationFailed. It fails on the code: the call of
  \<^verbatim>\<open>restoreIdentity\<close> is not in a \<^verbatim>\<open>try\<close>, and with the WASM adapter over a core that refuses
  to unwrap \<^verbatim>\<open>login\<close> fails with the adapter's \<^verbatim>\<open>CryptoError\<close>.
\<close>

theorem unwrap_failure_is_not_authentication_failed:
  "fst (VaultFacade_login stub_platform unwrap_failing_adapter MockStorage ''password123'' None
          locked_world)
     = Inl (CryptoError ''Failed to restore identity from wrapped secret''
              (Some (NativeError ''Decryption failed'')))
   \<and> \<not> is_AuthenticationFailed (CryptoError ''Failed to restore identity from wrapped secret''
              (Some (NativeError ''Decryption failed'')))"
proof -
  have m: "vid_did payload_empty = mock_did" by (simp add: payload_empty_def)
  have "VaultFacade_login stub_platform unwrap_failing_adapter MockStorage ''password123'' None
          locked_world
     = (Inl (CryptoError ''Failed to restore identity from wrapped secret''
              (Some (NativeError ''Decryption failed''))),
        locked_world\<lparr>w_heap := [mock_session_key, mock_session_key]\<rparr>)"
    using locked_world_flags(1,2) locked_world_resolve locked_world_get
        stored_blob_main failing_adapter_facts stub_parse_doc_empty m stub_atob_salt
        stub_atob_wrapped
    by (simp add: VaultFacade_login_def ensureInitialized_ready LoginUseCase_execute_def
        LoginUseCase_unlock_def alloc_def locked_world_def unlocked_world_def new_VaultFacade_def)
  then show ?thesis
    by (simp add: is_AuthenticationFailed_def CryptoError_def)
qed

text \<open>
  C4, amended: in that situation \<^verbatim>\<open>login\<close> fails with the very error that the crypto port's
  \<^verbatim>\<open>restoreIdentity\<close> throws, and establishes no session (the derived key stays in its
  buffer). With the WASM adapter that error is a \<^verbatim>\<open>CryptoError\<close> with the message
  \<^verbatim>\<open>Failed to restore identity from wrapped secret\<close>, not an authentication failure.
\<close>

theorem login_unwrap_failure:
  assumes "w_isInitialized \<sigma>" "\<not> w_isDisposed \<sigma>"
    and "LoginUseCase_resolve S did (w_storage \<sigma>) = Inr targetDid"
    and "st_get S (w_storage \<sigma>) targetDid = Inr (Some storedBlob)"
    and "fromBase64 P (blob_wrappedData storedBlob) = Inr ct"
    and "decryptVault C ct password = Inr decryptedBytes"
    and "json_parse P decryptedBytes = Inr internalData"
    and "vid_did internalData = targetDid"
    and "fromBase64 P (vid_salt internalData) = Inr salt"
    and "deriveSessionKey C password salt = Inr key"
    and "fromBase64 P (vid_wrappedSecret internalData) = Inr wrappedSecret"
    and "restoreIdentity C wrappedSecret key = Inl e"
  shows "VaultFacade_login P C S password did \<sigma> = (Inl e, \<sigma>\<lparr>w_heap := w_heap \<sigma> @ [key]\<rparr>)
    \<and> w_session (snd (VaultFacade_login P C S password did \<sigma>)) = w_session \<sigma>
    \<and> (\<forall>loaded rnd. C = WasmCryptoAdapter loaded rnd \<longrightarrow>
          is_CryptoError e \<and> \<not> is_AuthenticationFailed e
          \<and> err_message e = ''Failed to restore identity from wrapped secret'')"
proof -
  have run: "VaultFacade_login P C S password did \<sigma>
      = (Inl e, \<sigma>\<lparr>w_heap := w_heap \<sigma> @ [key]\<rparr>)"
    using assms
    by (simp add: VaultFacade_login_def ensureInitialized_ready LoginUseCase_execute_def
        LoginUseCase_unlock_def alloc_def)
  have cls: "is_CryptoError e \<and> \<not> is_AuthenticationFailed e
      \<and> err_message e = ''Failed to restore identity from wrapped secret''"
    if "C = WasmCryptoAdapter loaded rnd" for loaded rnd
    using assms(12) that
    by (auto simp add: WasmCryptoAdapter_def catch_CryptoError_def CryptoError_def
        is_CryptoError_def is_AuthenticationFailed_def split: sum.splits)
  show ?thesis using run cls by simp
qed

theorem login_unwrap_failure_witness:
  "decryptVault unwrap_failing_adapter sealed_empty ''password123'' = Inr doc_empty
   \<and> json_parse stub_platform doc_empty = Inr payload_empty
   \<and> vid_did payload_empty = mock_did
   \<and> VaultFacade_login stub_platform unwrap_failing_adapter MockStorage ''password123'' None
        locked_world
       = (Inl (CryptoError ''Failed to restore identity from wrapped secret''
                 (Some (NativeError ''Decryption failed''))),
          locked_world\<lparr>w_heap := [mock_session_key, mock_session_key]\<rparr>)
   \<and> is_CryptoError (CryptoError ''Failed to restore identity from wrapped secret''
                 (Some (NativeError ''Decryption failed'')))"
proof -
  have m: "vid_did payload_empty = mock_did" by (simp add: payload_empty_def)
  have h: "w_heap locked_world = [mock_session_key]" by (simp add: locked_world_def unlocked_world_def new_VaultFacade_def)
  show ?thesis
    using login_unwrap_failure [OF locked_world_flags(1,2) locked_world_resolve locked_world_get
        stored_blob_main failing_adapter_facts(1) stub_parse_doc_empty m stub_atob_salt
        failing_adapter_facts(2) stub_atob_wrapped failing_adapter_facts(3)]
      failing_adapter_facts(1) stub_parse_doc_empty m h
    by (simp add: is_CryptoError_def CryptoError_def)
qed

section \<open>C5: what a secret mutation rewrites in the envelope\<close>

text \<open>
  C5: every \<^verbatim>\<open>saveSecret\<close> and \<^verbatim>\<open>deleteSecret\<close> call (of the use case, and \<^verbatim>\<open>saveSecret\<close> of the
  facade) either fails and leaves the store as it was, or succeeds on a session whose
  envelope is in the store and ends with one \<^verbatim>\<open>storage.save\<close> of that envelope with only
  \<^verbatim>\<open>wrappedData\<close> and \<^verbatim>\<open>updatedAt\<close> replaced: the recovery ciphertext, the version, the
  identifier and the salt are the ones read. With a store that reads back what it wrote,
  that envelope is the one persisted afterwards.
\<close>

theorem secret_mutation_frame:
  assumes "r = SecretManagementUseCase_saveSecret P C S key val \<sigma>
         \<or> r = SecretManagementUseCase_deleteSecret P C S key \<sigma>
         \<or> r = VaultFacade_saveSecret P C S key val \<sigma>"
  shows "(fst r = Inr () \<longrightarrow>
           (\<exists>sd old new. w_session \<sigma> = Some sd
              \<and> st_get S (w_storage \<sigma>) (sess_did sd) = Inr (Some old)
              \<and> st_save S (w_storage \<sigma>) (sess_did sd) new = Inr (w_storage (snd r))
              \<and> (\<exists>w t. new = old\<lparr>blob_wrappedData := w, blob_updatedAt := t\<rparr>)
              \<and> blob_recoveryBlob new = blob_recoveryBlob old
              \<and> blob_version new = blob_version old
              \<and> blob_did new = blob_did old
              \<and> blob_salt new = blob_salt old
              \<and> (read_your_writes S \<longrightarrow>
                   st_get S (w_storage (snd r)) (sess_did sd) = Inr (Some new))))
    \<and> ((\<exists>e. fst r = Inl e) \<longrightarrow> w_storage (snd r) = w_storage \<sigma>)"
proof -
  have ok: "\<exists>sd old w t. w_session \<sigma> = Some sd
           \<and> st_get S (w_storage \<sigma>) (sess_did sd) = Inr (Some old)
           \<and> st_save S (w_storage \<sigma>) (sess_did sd)
                 (old\<lparr>blob_wrappedData := w, blob_updatedAt := t\<rparr>) = Inr (w_storage (snd r))"
    if "fst r = Inr ()"
  proof -
    from that have r: "r = (Inr (), snd r)" by (cases r) simp
    from assms facade_saveSecret_cases [of P C S key val \<sigma>] r
    have "SecretManagementUseCase_saveSecret P C S key val \<sigma> = (Inr (), snd r)
        \<or> SecretManagementUseCase_deleteSecret P C S key \<sigma> = (Inr (), snd r)"
      by (metis Inl_Inr_False prod.inject)
    then show ?thesis
      using saveSecret_written deleteSecret_written by metis
  qed
  have bad: "w_storage (snd r) = w_storage \<sigma>" if "fst r = Inl e" for e
  proof -
    from that have r: "r = (Inl e, snd r)" by (cases r) simp
    from assms facade_saveSecret_cases [of P C S key val \<sigma>] r
    have "SecretManagementUseCase_saveSecret P C S key val \<sigma> = (Inl e, snd r)
        \<or> SecretManagementUseCase_deleteSecret P C S key \<sigma> = (Inl e, snd r)
        \<or> snd r = \<sigma>"
      by (metis snd_conv)
    then show ?thesis
      using saveSecret_failed_store deleteSecret_failed_store by metis
  qed
  have first: "\<exists>sd old new. w_session \<sigma> = Some sd
              \<and> st_get S (w_storage \<sigma>) (sess_did sd) = Inr (Some old)
              \<and> st_save S (w_storage \<sigma>) (sess_did sd) new = Inr (w_storage (snd r))
              \<and> (\<exists>w t. new = old\<lparr>blob_wrappedData := w, blob_updatedAt := t\<rparr>)
              \<and> blob_recoveryBlob new = blob_recoveryBlob old
              \<and> blob_version new = blob_version old
              \<and> blob_did new = blob_did old
              \<and> blob_salt new = blob_salt old
              \<and> (read_your_writes S \<longrightarrow>
                   st_get S (w_storage (snd r)) (sess_did sd) = Inr (Some new))"
    if "fst r = Inr ()"
  proof -
    from ok [OF that] obtain sd old w t where
      s: "w_session \<sigma> = Some sd" and
      g: "st_get S (w_storage \<sigma>) (sess_did sd) = Inr (Some old)" and
      sv: "st_save S (w_storage \<sigma>) (sess_did sd)
             (old\<lparr>blob_wrappedData := w, blob_updatedAt := t\<rparr>) = Inr (w_storage (snd r))"
      by blast
    have ryw: "read_your_writes S \<longrightarrow> st_get S (w_storage (snd r)) (sess_did sd)
        = Inr (Some (old\<lparr>blob_wrappedData := w, blob_updatedAt := t\<rparr>))"
      using sv by (simp add: read_your_writes_def)
    show ?thesis
      by (rule exI [of _ sd], rule exI [of _ old],
          rule exI [of _ "old\<lparr>blob_wrappedData := w, blob_updatedAt := t\<rparr>"])
         (use s g sv ryw in auto)
  qed
  show ?thesis using first bad by blast
qed

text \<open>
  On the unlocked facade of the test scenario \<^verbatim>\<open>saveSecret\<close> succeeds, and the envelope
  persisted afterwards differs from the one before in the main ciphertext only.
\<close>

theorem secret_mutation_frame_witness:
  "read_your_writes MockStorage
   \<and> fst (VaultFacade_saveSecret stub_platform MockWasmAdapter MockStorage
            ''api_key'' ''super_secret_value'' unlocked_world) = Inr ()
   \<and> st_get MockStorage (w_storage unlocked_world) mock_did = Inr (Some stored_blob)
   \<and> st_get MockStorage
        (w_storage (snd (VaultFacade_saveSecret stub_platform MockWasmAdapter
           MockStorage ''api_key'' ''super_secret_value'' unlocked_world))) mock_did
       = Inr (Some (stored_blob\<lparr>blob_wrappedData := sealed_one_b64\<rparr>))
   \<and> blob_recoveryBlob (stored_blob\<lparr>blob_wrappedData := sealed_one_b64\<rparr>)
       = blob_recoveryBlob stored_blob"
proof -
  have ready: "ensureInitialized unlocked_world = Inr ()"
    by (simp add: ensureInitialized_ready unlocked_world_def)
  have run: "VaultFacade_saveSecret stub_platform MockWasmAdapter MockStorage
            ''api_key'' ''super_secret_value'' unlocked_world
     = (Inr (), unlocked_world\<lparr>
        w_session := Some \<lparr>sess_client = MockClient mock_did, sess_sessionKey = 0,
          sess_did = mock_did, sess_password = ''password123'',
          sess_secrets = [(''api_key'', ''super_secret_value'')]\<rparr>,
        w_tick := 10,
        w_storage := [(mock_did, stored_blob\<lparr>blob_wrappedData := sealed_one_b64\<rparr>)]\<rparr>)"
    by (simp add: VaultFacade_saveSecret_def ready save_run)
  have ok: "fst (VaultFacade_saveSecret stub_platform MockWasmAdapter MockStorage
            ''api_key'' ''super_secret_value'' unlocked_world) = Inr ()"
    by (simp add: run)
  have r: "VaultFacade_saveSecret stub_platform MockWasmAdapter MockStorage
            ''api_key'' ''super_secret_value'' unlocked_world
         = SecretManagementUseCase_saveSecret stub_platform MockWasmAdapter MockStorage
            ''api_key'' ''super_secret_value'' unlocked_world
       \<or> VaultFacade_saveSecret stub_platform MockWasmAdapter MockStorage
            ''api_key'' ''super_secret_value'' unlocked_world
         = SecretManagementUseCase_deleteSecret stub_platform MockWasmAdapter MockStorage
            ''api_key'' unlocked_world
       \<or> VaultFacade_saveSecret stub_platform MockWasmAdapter MockStorage
            ''api_key'' ''super_secret_value'' unlocked_world
         = VaultFacade_saveSecret stub_platform MockWasmAdapter MockStorage
            ''api_key'' ''super_secret_value'' unlocked_world"
    by simp
  from secret_mutation_frame [OF r] ok MockStorage_read_your_writes unlocked_world_session
  obtain new where
    n: "st_get MockStorage
        (w_storage (snd (VaultFacade_saveSecret stub_platform MockWasmAdapter
           MockStorage ''api_key'' ''super_secret_value'' unlocked_world))) mock_did
       = Inr (Some new)"
    by auto
  have "new = stored_blob\<lparr>blob_wrappedData := sealed_one_b64\<rparr>"
    using n unfolding run by (simp add: MockStorage_def)
  with n ok unlocked_world_get MockStorage_read_your_writes
  show ?thesis by simp
qed

section \<open>C6: calls on a disposed engine\<close>

text \<open>
  C6 as stated: after \<^verbatim>\<open>dispose()\<close> every later call fails with the Disposed
  error, \<^verbatim>\<open>lock()\<close> and \<^verbatim>\<open>isAuthenticated()\<close> included. It fails on the code: on a disposed
  facade \<^verbatim>\<open>lock()\<close> returns normally and \<^verbatim>\<open>isAuthenticated()\<close> returns \<^verbatim>\<open>false\<close>.
\<close>

theorem lock_after_dispose_returns:
  "w_isDisposed (VaultFacade_dispose unlocked_world)
   \<and> fst (IVault_invoke stub_platform MockWasmAdapter MockStorage Lock
            (VaultFacade_dispose unlocked_world)) = Inr Void
   \<and> fst (IVault_invoke stub_platform MockWasmAdapter MockStorage IsAuthenticated
            (VaultFacade_dispose unlocked_world)) = Inr (Bool False)"
  by (simp add: VaultFacade_dispose_def VaultFacade_isAuthenticated_def unlocked_world_def
      locked_world_def unlocked_world_def new_VaultFacade_def)

text \<open>
  C6, amended: \<^verbatim>\<open>dispose()\<close> leaves the facade disposed, and on a disposed facade every
  guarded call (\<^verbatim>\<open>init\<close>, \<^verbatim>\<open>register\<close>, \<^verbatim>\<open>login\<close>, \<^verbatim>\<open>recoverAccount\<close>, \<^verbatim>\<open>getDid\<close>,
  \<^verbatim>\<open>getStoredIdentities\<close>, \<^verbatim>\<open>sign\<close>, \<^verbatim>\<open>saveSecret\<close>, \<^verbatim>\<open>getSecret\<close>) fails with the
  \<^verbatim>\<open>DISPOSED\<close> error and changes nothing, while \<^verbatim>\<open>lock()\<close> returns normally,
  \<^verbatim>\<open>isAuthenticated()\<close> returns \<^verbatim>\<open>false\<close> and a second \<^verbatim>\<open>dispose()\<close> is a no-op; no call
  makes the facade usable again.
\<close>

theorem dispose_finality:
  "w_isDisposed (VaultFacade_dispose \<sigma>0) \<and>
   (w_isDisposed \<sigma> \<longrightarrow>
      (guarded c \<longrightarrow>
         IVault_invoke P C S c \<sigma>
           = (Inl (VaultError ''VaultFacade has been disposed'' ''DISPOSED''), \<sigma>)
         \<and> is_Disposed (VaultError ''VaultFacade has been disposed'' ''DISPOSED''))
    \<and> fst (IVault_invoke P C S Lock \<sigma>) = Inr Void
    \<and> fst (IVault_invoke P C S IsAuthenticated \<sigma>) = Inr (Bool False)
    \<and> IVault_invoke P C S Dispose \<sigma> = (Inr Void, \<sigma>)
    \<and> w_isDisposed (snd (IVault_invoke P C S c \<sigma>)))"
proof -
  have d: "w_isDisposed (snd (IVault_invoke P C S c \<sigma>))" if "w_isDisposed \<sigma>"
  proof (cases "guarded c")
    case True
    then show ?thesis using that by (simp add: guarded_disposed)
  next
    case False
    then show ?thesis using that
      by (cases c) (simp_all add: VaultFacade_lock_def clear_disposed VaultFacade_dispose_def)
  qed
  show ?thesis
    by (simp add: dispose_disposed guarded_disposed d is_Disposed_def VaultError_def
        VaultFacade_isAuthenticated_def VaultFacade_dispose_def)
qed

theorem dispose_finality_witness:
  "w_isDisposed (VaultFacade_dispose unlocked_world) \<and> guarded (Login ''password123'' None) \<and>
   IVault_invoke stub_platform MockWasmAdapter MockStorage (Login ''password123'' None)
     (VaultFacade_dispose unlocked_world) =
   (Inl (VaultError ''VaultFacade has been disposed'' ''DISPOSED''),
    VaultFacade_dispose unlocked_world)"
  using dispose_finality [of unlocked_world "VaultFacade_dispose unlocked_world"
      "Login ''password123'' None" stub_platform MockWasmAdapter MockStorage]
  by simp

section \<open>C7: what a teardown does to the session data\<close>

text \<open>
  C7: on every teardown of a session (\<^verbatim>\<open>lock\<close>, \<^verbatim>\<open>dispose\<close>, replacement by \<^verbatim>\<open>establish\<close>)
  the 32 bytes of the session key, the cached password and the cached secrets are
  overwritten before the session data is released; after \<^verbatim>\<open>clear()\<close> the session-key buffer
  no longer holds the key.

  The code does not do this. \<^verbatim>\<open>SessionManager.clear\<close> calls \<^verbatim>\<open>free()\<close> on the client and
  sets \<^verbatim>\<open>_session\<close> to \<^verbatim>\<open>null\<close>; nothing writes to the buffer. With the session of the unit
  test, whose key is \<^verbatim>\<open>new Uint8Array(32).fill(0x42)\<close>, the buffer that \<^verbatim>\<open>getSessionKey()\<close>
  returned still holds the same 32 bytes after \<^verbatim>\<open>clear()\<close>, after \<^verbatim>\<open>lock()\<close> and after
  \<^verbatim>\<open>dispose()\<close>. The documentation of the packages says otherwise (\<^verbatim>\<open>keys zeroized on lock\<close>,
  \<^verbatim>\<open>Memory is wiped on vault lock\<close>, \<^verbatim>\<open>Clears the session key from JavaScript heap\<close>).
\<close>

theorem clear_keeps_key_bytes:
  "SessionManager_getSessionKey keyed_world = Inr 0
   \<and> w_heap keyed_world ! 0 = replicate 32 0x42
   \<and> w_heap (SessionManager_clear keyed_world) ! 0 = replicate 32 0x42
   \<and> w_heap (VaultFacade_lock keyed_world) ! 0 = replicate 32 0x42
   \<and> w_heap (VaultFacade_dispose keyed_world) ! 0 = replicate 32 0x42"
  by (simp add: keyed_world_def SessionManager_establish_def SessionManager_clear_def
      new_VaultFacade_def SessionManager_getSessionKey_def VaultFacade_lock_def
      VaultFacade_dispose_def)

text \<open>No teardown writes to any buffer, whatever the session is.\<close>

lemma teardown_keeps_heap:
  "w_heap (SessionManager_clear \<sigma>) = w_heap \<sigma>
   \<and> w_heap (VaultFacade_lock \<sigma>) = w_heap \<sigma>
   \<and> w_heap (VaultFacade_dispose \<sigma>) = w_heap \<sigma>
   \<and> w_heap (SessionManager_establish client key did password secrets \<sigma>) = w_heap \<sigma>"
  by (simp add: SessionManager_clear_def VaultFacade_lock_def VaultFacade_dispose_def
      SessionManager_establish_def split: option.splits)

section \<open>C8: a failed save and the cache\<close>

text \<open>
  C8: \<^verbatim>\<open>saveSecret\<close> updates the session cache before it reads the store, so that for every
  \<^verbatim>\<open>saveSecret(k, v)\<close> on an authenticated session that fails with a storage error, a
  following \<^verbatim>\<open>getSecret(k)\<close> on the still authenticated session returns \<^verbatim>\<open>v\<close>.

  The code does not do this for the key \<^verbatim>\<open>__proto__\<close>. The cache is a plain object, and
  \<^verbatim>\<open>secrets['__proto__'] = 'v'\<close> runs the setter inherited from \<^verbatim>\<open>Object.prototype\<close>, which
  stores nothing. In the scenario of the claim (the envelope is missing when \<^verbatim>\<open>saveSecret\<close>
  reads the store) the call fails with the \<^verbatim>\<open>STORAGE_ERROR\<close> of the use case, the session is
  as it was, and \<^verbatim>\<open>getSecret('__proto__')\<close> returns \<^verbatim>\<open>Object.prototype\<close>: neither \<^verbatim>\<open>'v'\<close> nor
  the \<^verbatim>\<open>null\<close> that the documentation of \<^verbatim>\<open>getSecret\<close> gives for a key not found.
\<close>

theorem failed_save_of_proto_key_not_cached:
  "VaultFacade_saveSecret stub_platform MockWasmAdapter MockStorage ''__proto__'' ''v''
     orphaned_world =
     (Inl (VaultError ''Storage corruption during save'' ''STORAGE_ERROR''), orphaned_world)
   \<and> is_StorageError (VaultError ''Storage corruption during save'' ''STORAGE_ERROR'')
   \<and> VaultFacade_isAuthenticated orphaned_world
   \<and> VaultFacade_getSecret ''__proto__'' orphaned_world = Inr (PrototypeMember ''__proto__'')
   \<and> VaultFacade_getSecret ''__proto__'' orphaned_world \<noteq> Inr (OwnString ''v'')"
proof -
  have i: "w_isInitialized orphaned_world" and d: "\<not> w_isDisposed orphaned_world"
    and s: "w_session orphaned_world = Some \<lparr>sess_client = MockClient mock_did,
       sess_sessionKey = 0, sess_did = mock_did, sess_password = ''password123'',
       sess_secrets = []\<rparr>"
    and st: "w_storage orphaned_world = []"
    by (simp_all add: orphaned_world_def locked_world_def unlocked_world_def new_VaultFacade_def)
  have cache: "snd (SessionManager_setSecret ''__proto__'' ''v'' orphaned_world) = orphaned_world"
    using s by (simp add: setSecret_world object_set_proto)
  have run: "VaultFacade_saveSecret stub_platform MockWasmAdapter MockStorage ''__proto__'' ''v''
       orphaned_world =
     (Inl (VaultError ''Storage corruption during save'' ''STORAGE_ERROR''), orphaned_world)"
    using i d s st
    by (simp add: VaultFacade_saveSecret_def ensureInitialized_ready
        SecretManagementUseCase_saveSecret_def cache MockStorage_def)
  have auth: "VaultFacade_isAuthenticated orphaned_world"
    using d s by (simp add: VaultFacade_isAuthenticated_def SessionManager_isAuthenticated_def)
  have read: "VaultFacade_getSecret ''__proto__'' orphaned_world
      = Inr (PrototypeMember ''__proto__'')"
    using i d s
    by (simp add: VaultFacade_getSecret_def ensureInitialized_ready
        SecretManagementUseCase_getSecret_def SessionManager_isAuthenticated_def
        SessionManager_getSecret_def object_get_proto)
  show ?thesis
    using run auth read by (simp add: is_StorageError_def VaultError_def)
qed

text \<open>
  For every other key, and for \<^verbatim>\<open>__proto__\<close> when the cache has a property of its own under
  that name, the cache is ahead after a failed save, whatever the error is.
\<close>

lemma failed_save_cache_ahead_own_key:
  assumes "w_isInitialized \<sigma>" "\<not> w_isDisposed \<sigma>" "w_session \<sigma> = Some sd"
    and "key \<noteq> ''__proto__'' \<or> map_of (sess_secrets sd) key \<noteq> None"
    and "VaultFacade_saveSecret P C S key val \<sigma> = (Inl e, \<sigma>')"
  shows "VaultFacade_getSecret key \<sigma>' = Inr (OwnString val)
    \<and> VaultFacade_isAuthenticated \<sigma>'"
proof -
  have uc: "SecretManagementUseCase_saveSecret P C S key val \<sigma> = (Inl e, \<sigma>')"
    using assms by (simp add: VaultFacade_saveSecret_def ensureInitialized_ready)
  then have s': "\<sigma>' = snd (SecretManagementUseCase_saveSecret P C S key val \<sigma>)" by simp
  note c = saveSecret_cache [OF assms(3), of P C S key val, folded s']
  show ?thesis
    using c assms(1,2) object_set_get [OF assms(4), of val]
    by (simp add: VaultFacade_getSecret_def ensureInitialized_ready
        SecretManagementUseCase_getSecret_def SessionManager_isAuthenticated_def
        SessionManager_getSecret_def VaultFacade_isAuthenticated_def)
qed

text \<open>
  With the key \<^verbatim>\<open>api_key\<close> in the same scenario the value is in the cache after the failed
  save.
\<close>

lemma failed_save_of_api_key_cached:
  "VaultFacade_saveSecret stub_platform MockWasmAdapter MockStorage ''api_key''
     ''super_secret_value'' orphaned_world =
     (Inl (VaultError ''Storage corruption during save'' ''STORAGE_ERROR''),
      orphaned_world\<lparr>w_session := Some \<lparr>sess_client = MockClient mock_did, sess_sessionKey = 0,
         sess_did = mock_did, sess_password = ''password123'',
         sess_secrets = [(''api_key'', ''super_secret_value'')]\<rparr>\<rparr>)
   \<and> VaultFacade_getSecret ''api_key''
        (orphaned_world\<lparr>w_session := Some \<lparr>sess_client = MockClient mock_did,
           sess_sessionKey = 0, sess_did = mock_did, sess_password = ''password123'',
           sess_secrets = [(''api_key'', ''super_secret_value'')]\<rparr>\<rparr>)
       = Inr (OwnString ''super_secret_value'')"
proof -
  have run: "VaultFacade_saveSecret stub_platform MockWasmAdapter MockStorage ''api_key''
      ''super_secret_value'' orphaned_world =
     (Inl (VaultError ''Storage corruption during save'' ''STORAGE_ERROR''),
      orphaned_world\<lparr>w_session := Some \<lparr>sess_client = MockClient mock_did, sess_sessionKey = 0,
         sess_did = mock_did, sess_password = ''password123'',
         sess_secrets = [(''api_key'', ''super_secret_value'')]\<rparr>\<rparr>)"
    by (simp add: VaultFacade_saveSecret_def ensureInitialized_def ensureNotDisposed_def
        orphaned_world_def locked_world_def unlocked_world_def new_VaultFacade_def
        SecretManagementUseCase_saveSecret_def SessionManager_setSecret_def MockStorage_def
        object_set_def)
  have i: "w_isInitialized orphaned_world" and d: "\<not> w_isDisposed orphaned_world"
    and s: "w_session orphaned_world = Some \<lparr>sess_client = MockClient mock_did,
       sess_sessionKey = 0, sess_did = mock_did, sess_password = ''password123'',
       sess_secrets = []\<rparr>"
    by (simp_all add: orphaned_world_def locked_world_def unlocked_world_def new_VaultFacade_def)
  have k: "''api_key'' \<noteq> ''__proto__'' \<or> map_of (sess_secrets \<lparr>sess_client = MockClient mock_did,
       sess_sessionKey = 0, sess_did = mock_did, sess_password = ''password123'',
       sess_secrets = []\<rparr>) ''api_key'' \<noteq> None"
    by simp
  show ?thesis
    using failed_save_cache_ahead_own_key [OF i d s k run] run by simp
qed

section \<open>C9: the empty identifier\<close>

text \<open>
  C9: \<^verbatim>\<open>login\<close> and \<^verbatim>\<open>recoverAccount\<close> with the empty string as identifier behave exactly
  as with no identifier, in the use cases and through the facade: the target is the first
  key the store lists, and the call fails with an \<^verbatim>\<open>AuthenticationError\<close> at this step only
  when the store lists no key.
\<close>

theorem empty_identifier_is_no_identifier:
  "LoginUseCase_execute P C S password (Some []) \<sigma> = LoginUseCase_execute P C S password None \<sigma>
   \<and> VaultFacade_login P C S password (Some []) \<sigma> = VaultFacade_login P C S password None \<sigma>
   \<and> RecoverAccountUseCase_execute P C S (options\<lparr>opt_did := Some []\<rparr>) \<sigma>
       = RecoverAccountUseCase_execute P C S (options\<lparr>opt_did := None\<rparr>) \<sigma>
   \<and> VaultFacade_recoverAccount P C S (options\<lparr>opt_did := Some []\<rparr>) \<sigma>
       = VaultFacade_recoverAccount P C S (options\<lparr>opt_did := None\<rparr>) \<sigma>
   \<and> (\<forall>k ks. st_listKeys S (w_storage \<sigma>) = Inr (k # ks) \<longrightarrow>
         LoginUseCase_execute P C S password (Some []) \<sigma> = LoginUseCase_unlock P C S password k \<sigma>
         \<and> RecoverAccountUseCase_execute P C S (options\<lparr>opt_did := Some []\<rparr>) \<sigma>
             = RecoverAccountUseCase_rewrap P C S (options\<lparr>opt_did := Some []\<rparr>) k \<sigma>)
   \<and> (st_listKeys S (w_storage \<sigma>) = Inr [] \<longrightarrow>
         LoginUseCase_execute P C S password (Some []) \<sigma>
           = (Inl (AuthenticationError ''No identities found in storage''), \<sigma>)
         \<and> RecoverAccountUseCase_execute P C S (options\<lparr>opt_did := Some []\<rparr>) \<sigma>
             = (Inl (AuthenticationError ''No vaults found''), \<sigma>))"
proof -
  have rw: "RecoverAccountUseCase_rewrap P C S (options\<lparr>opt_did := d\<rparr>) t \<sigma>
      = RecoverAccountUseCase_rewrap P C S options t \<sigma>" for d t \<sigma>
    by (simp add: RecoverAccountUseCase_rewrap_def
        cong: sum.case_cong option.case_cong prod.case_cong if_cong)
  have l: "LoginUseCase_execute P C S password (Some []) \<sigma>
      = LoginUseCase_execute P C S password None \<sigma>" for \<sigma>
    by (simp add: LoginUseCase_execute_def LoginUseCase_resolve_def)
  have r: "RecoverAccountUseCase_execute P C S (options\<lparr>opt_did := Some []\<rparr>) \<sigma>
       = RecoverAccountUseCase_execute P C S (options\<lparr>opt_did := None\<rparr>) \<sigma>" for \<sigma>
    by (simp add: RecoverAccountUseCase_execute_def RecoverAccountUseCase_resolve_def rw
        split: sum.splits list.splits)
  have fl: "VaultFacade_login P C S password (Some []) \<sigma>
      = VaultFacade_login P C S password None \<sigma>"
    by (simp add: VaultFacade_login_def l cong: sum.case_cong)
  have fr: "VaultFacade_recoverAccount P C S (options\<lparr>opt_did := Some []\<rparr>) \<sigma>
       = VaultFacade_recoverAccount P C S (options\<lparr>opt_did := None\<rparr>) \<sigma>"
    by (simp add: VaultFacade_recoverAccount_def r cong: sum.case_cong)
  show ?thesis
    using l r fl fr
    by (simp add: LoginUseCase_execute_def LoginUseCase_resolve_def
        RecoverAccountUseCase_execute_def RecoverAccountUseCase_resolve_def)
qed

text \<open>
  In the store of the test scenario no envelope is kept under the empty key, and the
  login with the empty identifier goes on with the one key listed.
\<close>

theorem empty_identifier_is_no_identifier_witness:
  "st_listKeys MockStorage (w_storage locked_world) = Inr [mock_did]
   \<and> st_get MockStorage (w_storage locked_world) [] = Inr None
   \<and> LoginUseCase_execute stub_platform MockWasmAdapter MockStorage ''password123'' (Some [])
        locked_world
     = LoginUseCase_unlock stub_platform MockWasmAdapter MockStorage ''password123'' mock_did
        locked_world"
proof -
  have keys: "st_listKeys MockStorage (w_storage locked_world) = Inr [mock_did]"
    and missing: "st_get MockStorage (w_storage locked_world) [] = Inr None"
    by (simp_all add: locked_world_def unlocked_world_def new_VaultFacade_def MockStorage_def mock_did_def)
  from keys empty_identifier_is_no_identifier [of stub_platform MockWasmAdapter MockStorage
      "''password123''" locked_world
      "\<lparr>opt_recoveryCode = ''RK-2A2A2A2A-2A2A2A2A-2A2A2A2A-2A2A2A2A'',
        opt_newPassword = ''new-password'', opt_did = None, opt_rotateRecoveryCode = None\<rparr>"]
  have "LoginUseCase_execute stub_platform MockWasmAdapter MockStorage ''password123'' (Some [])
          locked_world
     = LoginUseCase_unlock stub_platform MockWasmAdapter MockStorage ''password123'' mock_did
          locked_world"
    by blast
  with keys missing show ?thesis by simp
qed

section \<open>C10: precedence of the guards\<close>

text \<open>
  C10 as stated: the guards have a fixed precedence on every operation, and an operation
  on a disposed engine fails with the \<^verbatim>\<open>DISPOSED\<close> error even when the engine is also
  uninitialized or has no session. It fails on the code for the three operations that
  carry no guard: on a facade that was disposed without ever being initialized (so
  disposed, uninitialized and without a session) \<^verbatim>\<open>isAuthenticated()\<close> returns \<^verbatim>\<open>false\<close>, and
  \<^verbatim>\<open>lock()\<close> and a second \<^verbatim>\<open>dispose()\<close> return normally.
\<close>

theorem unguarded_calls_ignore_disposal:
  "w_isDisposed (VaultFacade_dispose (new_VaultFacade []))
   \<and> \<not> w_isInitialized (VaultFacade_dispose (new_VaultFacade []))
   \<and> w_session (VaultFacade_dispose (new_VaultFacade [])) = None
   \<and> IVault_invoke stub_platform MockWasmAdapter MockStorage IsAuthenticated
        (VaultFacade_dispose (new_VaultFacade []))
       = (Inr (Bool False), VaultFacade_dispose (new_VaultFacade []))
   \<and> IVault_invoke stub_platform MockWasmAdapter MockStorage Lock
        (VaultFacade_dispose (new_VaultFacade []))
       = (Inr Void, VaultFacade_dispose (new_VaultFacade []))
   \<and> IVault_invoke stub_platform MockWasmAdapter MockStorage Dispose
        (VaultFacade_dispose (new_VaultFacade []))
       = (Inr Void, VaultFacade_dispose (new_VaultFacade []))"
  by (simp add: new_VaultFacade_def VaultFacade_dispose_def VaultFacade_lock_def
      SessionManager_clear_def VaultFacade_isAuthenticated_def
      SessionManager_isAuthenticated_def)

text \<open>
  C10, amended: the guards run in a fixed order on every operation that carries one
  (\<^verbatim>\<open>init\<close>, \<^verbatim>\<open>register\<close>, \<^verbatim>\<open>login\<close>, \<^verbatim>\<open>recoverAccount\<close>, \<^verbatim>\<open>getDid\<close>, \<^verbatim>\<open>getStoredIdentities\<close>,
  \<^verbatim>\<open>sign\<close>, \<^verbatim>\<open>saveSecret\<close>, \<^verbatim>\<open>getSecret\<close>). Such a call on a disposed facade fails with the
  \<^verbatim>\<open>DISPOSED\<close> error whatever the other flag and the session are; a call that needs a
  session, on an initialized facade that is locked, fails with \<^verbatim>\<open>NotAuthenticatedError\<close>;
  and such a call other than \<^verbatim>\<open>init\<close> (so \<^verbatim>\<open>saveSecret\<close> and \<^verbatim>\<open>getSecret\<close> too) on a facade
  that was never initialized fails with \<^verbatim>\<open>InitializationError\<close>, which is not a
  \<^verbatim>\<open>NotAuthenticatedError\<close>. In each case the state is unchanged. The other three
  operations, \<^verbatim>\<open>lock\<close>, \<^verbatim>\<open>isAuthenticated\<close> and \<^verbatim>\<open>dispose\<close>, check nothing and return
  normally in every state.
\<close>

theorem guard_precedence:
  "(guarded c \<and> w_isDisposed \<sigma> \<longrightarrow>
      IVault_invoke P C S c \<sigma>
        = (Inl (VaultError ''VaultFacade has been disposed'' ''DISPOSED''), \<sigma>))
   \<and> (requires_session c \<and> \<not> w_isDisposed \<sigma> \<and> w_isInitialized \<sigma> \<and> w_session \<sigma> = None \<longrightarrow>
      IVault_invoke P C S c \<sigma> = (Inl NotAuthenticatedError, \<sigma>))
   \<and> (guarded c \<and> c \<noteq> Init \<and> \<not> w_isDisposed \<sigma> \<and> \<not> w_isInitialized \<sigma> \<longrightarrow>
      IVault_invoke P C S c \<sigma> =
        (Inl (InitializationError ''VaultFacade not initialized. Call init() first.'' None), \<sigma>))
   \<and> (\<not> guarded c \<longrightarrow>
      fst (IVault_invoke P C S c \<sigma>)
        = (if c = IsAuthenticated then Inr (Bool (VaultFacade_isAuthenticated \<sigma>)) else Inr Void))
   \<and> is_Disposed (VaultError ''VaultFacade has been disposed'' ''DISPOSED'')
   \<and> is_NotAuthenticated NotAuthenticatedError
   \<and> is_InitializationError
        (InitializationError ''VaultFacade not initialized. Call init() first.'' None)
   \<and> \<not> is_NotAuthenticated
        (InitializationError ''VaultFacade not initialized. Call init() first.'' None)"
proof -
  have u: "\<not> guarded c \<longrightarrow>
      fst (IVault_invoke P C S c \<sigma>)
        = (if c = IsAuthenticated then Inr (Bool (VaultFacade_isAuthenticated \<sigma>)) else Inr Void)"
    by (cases c) simp_all
  show ?thesis
    using u
    by (simp add: guarded_disposed requires_session_locked guarded_uninitialized
        is_Disposed_def is_NotAuthenticated_def is_InitializationError_def
        VaultError_def NotAuthenticatedError_def InitializationError_def)
qed

theorem guard_precedence_witness:
  "IVault_invoke stub_platform MockWasmAdapter MockStorage (SaveSecret ''k'' ''v'')
     (VaultFacade_dispose (new_VaultFacade [])) =
     (Inl (VaultError ''VaultFacade has been disposed'' ''DISPOSED''),
      VaultFacade_dispose (new_VaultFacade []))
   \<and> IVault_invoke stub_platform MockWasmAdapter MockStorage (SaveSecret ''k'' ''v'') locked_world =
     (Inl NotAuthenticatedError, locked_world)
   \<and> IVault_invoke stub_platform MockWasmAdapter MockStorage (GetSecret ''k'') (new_VaultFacade []) =
     (Inl (InitializationError ''VaultFacade not initialized. Call init() first.'' None),
      new_VaultFacade [])
   \<and> fst (IVault_invoke stub_platform MockWasmAdapter MockStorage Lock
        (VaultFacade_dispose (new_VaultFacade []))) = Inr Void"
  using guard_precedence [of "SaveSecret ''k'' ''v''" "VaultFacade_dispose (new_VaultFacade [])"
          stub_platform MockWasmAdapter MockStorage]
        guard_precedence [of "SaveSecret ''k'' ''v''" locked_world
          stub_platform MockWasmAdapter MockStorage]
        guard_precedence [of "GetSecret ''k''" "new_VaultFacade []"
          stub_platform MockWasmAdapter MockStorage]
        guard_precedence [of Lock "VaultFacade_dispose (new_VaultFacade [])"
          stub_platform MockWasmAdapter MockStorage]
  by (simp add: locked_world_def unlocked_world_def new_VaultFacade_def VaultFacade_dispose_def VaultFacade_lock_def
      SessionManager_clear_def)

end
